theory Spec2Isabelle
  imports Complex_Main "HOL-Library.Word"
begin

unbundle bit_operations_syntax

section \<open>The GSettings preferences backend of GnuCash (gnc-gsettings.c)\<close>

text \<open>
  A shallow embedding of \<^verbatim>\<open>src/app-utils/gnc-gsettings.c\<close>. The file keeps three
  statics (the prefix, the schema hash table, the saved entity loader) and talks to
  three libraries: GLib/GObject/GIO (strings, hash table, signals, GSettings), libxml2
  and libxslt (the migration), Guile (the migration script). The statics and the state
  of the settings provider are the fields of the record \<open>world\<close>; every function of the
  file takes the world and returns the new one.

  Conventions.
  \<^item> A C string is a \<open>string\<close>; a nullable \<^verbatim>\<open>const gchar *\<close> is a \<open>string option\<close>,
    \<open>None\<close> being \<^verbatim>\<open>NULL\<close>.
  \<^item> A \<^verbatim>\<open>GSettings *\<close>, a callback and a user-data pointer are addresses
    (\<open>nat\<close>), nullable ones \<open>nat option\<close>.
  \<^item> Where a call can end the process (a \<^verbatim>\<open>NULL\<close> dereference, an abort inside
    a library), the result of the function is wrapped in one more \<open>option\<close> and
    \<open>None\<close> is that fault. This is so for the lookup of a schema and for every
    function that calls it, and for the functions of the provider that read a key.
  \<^item> \<^verbatim>\<open>ENTER\<close>, \<^verbatim>\<open>LEAVE\<close> and \<^verbatim>\<open>DEBUG\<close> only trace and are left out;
    \<^verbatim>\<open>PWARN\<close>, \<^verbatim>\<open>PERR\<close> and the message of a failed \<^verbatim>\<open>g_return_if_fail\<close> or
    \<^verbatim>\<open>g_return_val_if_fail\<close> of the file are appended to \<open>qof_log\<close>. What the
    libraries print on their own is not recorded.
  \<^item> The libraries are not part of the file. Their functions are modelled from their
    documented behaviour, as far as the file uses them.
\<close>

subsection \<open>GLib string primitives\<close>

text \<open>\<^verbatim>\<open>g_strdup\<close>: a copy of the string, \<^verbatim>\<open>NULL\<close> for \<^verbatim>\<open>NULL\<close>. At the level of
  values a copy is the string itself; the heap model below tells the copy apart.\<close>

definition g_strdup :: "string option \<Rightarrow> string option" where
  "g_strdup str = str"

text \<open>\<^verbatim>\<open>g_str_has_prefix\<close>: both arguments are checked with
  \<^verbatim>\<open>g_return_val_if_fail (... != NULL, FALSE)\<close>, then the first \<open>strlen prefix\<close> bytes
  are compared.\<close>

definition g_str_has_prefix :: "string option \<Rightarrow> string option \<Rightarrow> bool" where
  "g_str_has_prefix str pre =
     (case str of
        None \<Rightarrow> False
      | Some s \<Rightarrow>
          (case pre of
             None \<Rightarrow> False
           | Some p \<Rightarrow> length p \<le> length s \<and> take (length p) s = p))"

text \<open>A \<^verbatim>\<open>NULL\<close>-terminated variable argument list of strings ends at its first
  \<^verbatim>\<open>NULL\<close>.\<close>

fun va_strings :: "string option list \<Rightarrow> string list" where
  "va_strings [] = []"
| "va_strings (None # rest) = []"
| "va_strings (Some s # rest) = s # va_strings rest"

text \<open>\<^verbatim>\<open>g_strjoin (separator, ...)\<close>: the strings of the argument list joined with the
  separator between them; the empty string for an empty list.\<close>

fun join_with :: "string \<Rightarrow> string list \<Rightarrow> string" where
  "join_with sep [] = []"
| "join_with sep [s] = s"
| "join_with sep (s # t # rest) = s @ sep @ join_with sep (t # rest)"

definition g_strjoin :: "string \<Rightarrow> string option list \<Rightarrow> string" where
  "g_strjoin separator args = join_with separator (va_strings args)"

text \<open>\<^verbatim>\<open>g_strcmp0\<close>: \<^verbatim>\<open>strcmp\<close> that accepts \<^verbatim>\<open>NULL\<close>, which sorts before every
  string. Only the sign of the result for unequal strings is left out: the callers
  test it against zero.\<close>

definition g_strcmp0 :: "string option \<Rightarrow> string option \<Rightarrow> int" where
  "g_strcmp0 str1 str2 =
     (case str1 of
        None \<Rightarrow> (case str2 of None \<Rightarrow> 0 | Some b \<Rightarrow> - 1)
      | Some a \<Rightarrow> (case str2 of None \<Rightarrow> 1 | Some b \<Rightarrow> (if a = b then 0 else 1)))"

subsection \<open>The settings provider: schemas, values, objects\<close>

text \<open>A \<^verbatim>\<open>GVariant\<close> of one of the types the typed accessors use. \<^verbatim>\<open>gint\<close> is a
  32-bit word, \<^verbatim>\<open>gdouble\<close> a real (no arithmetic is done on it).\<close>

datatype gvariant = VBool bool | VInt32 "32 word" | VDouble real | VString string

fun same_type :: "gvariant \<Rightarrow> gvariant \<Rightarrow> bool" where
  "same_type (VBool a) (VBool b) = True"
| "same_type (VInt32 a) (VInt32 b) = True"
| "same_type (VDouble a) (VDouble b) = True"
| "same_type (VString a) (VString b) = True"
| "same_type a b = False"

text \<open>What a compiled schema declares for a key: the default (whose type is the key's
  type), for an enumerated key the table of nicks and values, the range check of the
  schema, and whether the backend lets the key be written.\<close>

record key_decl =
  key_default :: gvariant
  key_enum :: "(string \<times> 32 word) list option"
  key_range :: "gvariant \<Rightarrow> bool"
  key_writable :: bool

datatype log_entry =
    Critical string
  | Pwarn_unknown_schema string
  | Perr_invalid_key "string option" "string option"
  | Perr_unable_to_set "string option" "string option"

text \<open>A connected signal handler, as GObject keeps it: the instance, the handler id,
  the signal id, the detail quark, the C callback and the user data. A \<^verbatim>\<open>GQuark\<close> is
  the identity of an interned string and 0 for none: here the string itself, \<open>None\<close>
  for 0.\<close>

record handler =
  h_instance :: nat
  h_id :: nat
  h_signal_id :: nat
  h_detail :: "string option"
  h_func :: nat
  h_data :: "nat option"

record world =
  gsettings_prefix :: "string option"
  schema_hash :: "string \<rightharpoonup> nat"
  installed :: "string \<rightharpoonup> (string \<times> key_decl) list"
  objects :: "nat \<rightharpoonup> string"
  next_object :: nat
  user_values :: "string \<Rightarrow> string \<rightharpoonup> gvariant"
  handlers :: "handler list"
  next_handler :: nat
  bindings :: "(nat \<times> string \<times> nat option \<times> string option) list"
  qof_log :: "log_entry list"

text \<open>The fields: \<open>gsettings_prefix\<close> and \<open>schema_hash\<close> are the statics of the file (a
  hash table that was never created is the empty map); \<open>installed\<close> maps the id of
  every schema the provider knows to its keys, in the order the provider lists them;
  \<open>objects\<close> maps every live \<^verbatim>\<open>GSettings\<close> object to its schema id; \<open>user_values\<close> is
  the store: the values written for the keys of a schema, a key without one reads as
  its default; \<open>bindings\<close> lists the bindings the provider keeps (object, key, bound
  object, property).\<close>

definition log_msg :: "log_entry \<Rightarrow> world \<Rightarrow> world" where
  "log_msg e w = w\<lparr>qof_log := qof_log w @ [e]\<rparr>"

definition G_IS_SETTINGS :: "world \<Rightarrow> nat option \<Rightarrow> bool" where
  "G_IS_SETTINGS w p = (case p of None \<Rightarrow> False | Some h \<Rightarrow> objects w h \<noteq> None)"

text \<open>The keys the schema of a live object declares.\<close>

definition schema_decls :: "world \<Rightarrow> nat \<Rightarrow> (string \<times> key_decl) list" where
  "schema_decls w h =
     (case objects w h of
        None \<Rightarrow> []
      | Some sid \<Rightarrow> (case installed w sid of None \<Rightarrow> [] | Some ks \<Rightarrow> ks))"

text \<open>\<^verbatim>\<open>g_settings_new\<close>. For an installed schema a new object is created and
  returned. On a schema that is not installed GIO ends the process
  (\<^verbatim>\<open>g_error\<close>: the schema is not installed): the call does not return, which is the
  fault \<open>None\<close>.\<close>

definition g_settings_new :: "world \<Rightarrow> string \<Rightarrow> (nat option \<times> world) option" where
  "g_settings_new w schema_id =
     (case installed w schema_id of
        None \<Rightarrow> None
      | Some ks \<Rightarrow>
          Some (Some (next_object w),
                w\<lparr>objects := (objects w)(next_object w \<mapsto> schema_id),
                  next_object := Suc (next_object w)\<rparr>))"

text \<open>\<^verbatim>\<open>g_settings_list_keys\<close> reads through the pointer without a check and never
  returns \<^verbatim>\<open>NULL\<close>: the outer \<open>None\<close> is the fault, the inner option the nullable
  \<^verbatim>\<open>gchar **\<close>.\<close>

definition g_settings_list_keys :: "world \<Rightarrow> nat option \<Rightarrow> string list option option" where
  "g_settings_list_keys w settings =
     (case settings of
        None \<Rightarrow> None
      | Some h \<Rightarrow>
          (case objects w h of
             None \<Rightarrow> None
           | Some sid \<Rightarrow> Some (Some (map fst (schema_decls w h)))))"

text \<open>\<^verbatim>\<open>g_settings_get_value\<close>: \<^verbatim>\<open>NULL\<close> after a failed
  \<^verbatim>\<open>g_return_val_if_fail\<close> on the object or the key, an abort on a key the schema
  does not declare, else the stored value or the default.\<close>

definition g_settings_get_value :: "world \<Rightarrow> nat option \<Rightarrow> string option \<Rightarrow> gvariant option option" where
  "g_settings_get_value w settings key =
     (case settings of
        None \<Rightarrow> Some None
      | Some h \<Rightarrow>
          (case objects w h of
             None \<Rightarrow> Some None
           | Some sid \<Rightarrow>
               (case key of
                  None \<Rightarrow> Some None
                | Some k \<Rightarrow>
                    (case map_of (schema_decls w h) k of
                       None \<Rightarrow> None
                     | Some d \<Rightarrow>
                         (case user_values w sid k of
                            None \<Rightarrow> Some (Some (key_default d))
                          | Some v \<Rightarrow> Some (Some v))))))"

text \<open>The typed getters unpack the variant; \<^verbatim>\<open>g_variant_get_boolean\<close> and its
  siblings return the zero of their type on a variant of another type.\<close>

definition g_settings_get_boolean :: "world \<Rightarrow> nat option \<Rightarrow> string option \<Rightarrow> bool option" where
  "g_settings_get_boolean w settings key =
     (case g_settings_get_value w settings key of
        None \<Rightarrow> None
      | Some v \<Rightarrow> Some (case v of Some (VBool b) \<Rightarrow> b | _ \<Rightarrow> False))"

definition g_settings_get_int :: "world \<Rightarrow> nat option \<Rightarrow> string option \<Rightarrow> 32 word option" where
  "g_settings_get_int w settings key =
     (case g_settings_get_value w settings key of
        None \<Rightarrow> None
      | Some v \<Rightarrow> Some (case v of Some (VInt32 i) \<Rightarrow> i | _ \<Rightarrow> 0))"

definition g_settings_get_double :: "world \<Rightarrow> nat option \<Rightarrow> string option \<Rightarrow> real option" where
  "g_settings_get_double w settings key =
     (case g_settings_get_value w settings key of
        None \<Rightarrow> None
      | Some v \<Rightarrow> Some (case v of Some (VDouble d) \<Rightarrow> d | _ \<Rightarrow> 0))"

definition g_settings_get_string :: "world \<Rightarrow> nat option \<Rightarrow> string option \<Rightarrow> string option option" where
  "g_settings_get_string w settings key =
     (case g_settings_get_value w settings key of
        None \<Rightarrow> None
      | Some v \<Rightarrow> Some (case v of Some (VString s) \<Rightarrow> Some s | _ \<Rightarrow> None))"

text \<open>\<^verbatim>\<open>g_settings_get_enum\<close>: -1 on an invalid object or key and on a key that is not
  enumerated; else the value of the stored nick. A nick outside the table fails an
  assertion of the library.\<close>

definition enum_decl :: "world \<Rightarrow> nat option \<Rightarrow> string option \<Rightarrow> (string \<times> 32 word) list option option" where
  "enum_decl w settings key =
     (case settings of
        None \<Rightarrow> Some None
      | Some h \<Rightarrow>
          (case key of
             None \<Rightarrow> Some None
           | Some k \<Rightarrow>
               (if objects w h = None then Some None
                else (case map_of (schema_decls w h) k of
                        None \<Rightarrow> None
                      | Some d \<Rightarrow> Some (key_enum d)))))"

definition g_settings_get_enum :: "world \<Rightarrow> nat option \<Rightarrow> string option \<Rightarrow> 32 word option" where
  "g_settings_get_enum w settings key =
     (case enum_decl w settings key of
        None \<Rightarrow> None
      | Some None \<Rightarrow> Some (- 1)
      | Some (Some table) \<Rightarrow>
          (case g_settings_get_value w settings key of
             None \<Rightarrow> None
           | Some v \<Rightarrow>
               (case v of
                  Some (VString nick) \<Rightarrow>
                    (case map_of table nick of None \<Rightarrow> None | Some i \<Rightarrow> Some i)
                | _ \<Rightarrow> None)))"

text \<open>\<^verbatim>\<open>g_settings_set_value\<close>: \<^verbatim>\<open>FALSE\<close> on an invalid object, key or value, an
  abort on an undeclared key, \<^verbatim>\<open>FALSE\<close> when the value has not the key's type, fails
  the range check of the schema or the key is not writable; else the value is stored.
  A refused write stores nothing.\<close>

definition g_settings_set_value :: "world \<Rightarrow> nat option \<Rightarrow> string option \<Rightarrow> gvariant option \<Rightarrow> (bool \<times> world) option" where
  "g_settings_set_value w settings key val =
     (case settings of
        None \<Rightarrow> Some (False, w)
      | Some h \<Rightarrow>
          (case objects w h of
             None \<Rightarrow> Some (False, w)
           | Some sid \<Rightarrow>
               (case key of
                  None \<Rightarrow> Some (False, w)
                | Some k \<Rightarrow>
                    (case map_of (schema_decls w h) k of
                       None \<Rightarrow> None
                     | Some d \<Rightarrow>
                         (case val of
                            None \<Rightarrow> Some (False, w)
                          | Some v \<Rightarrow>
                              if same_type v (key_default d) \<and> key_range d v \<and> key_writable d
                              then Some (True,
                                     w\<lparr>user_values :=
                                         (user_values w)(sid := (user_values w sid)(k \<mapsto> v))\<rparr>)
                              else Some (False, w))))))"

definition g_settings_set_boolean :: "world \<Rightarrow> nat option \<Rightarrow> string option \<Rightarrow> bool \<Rightarrow> (bool \<times> world) option" where
  "g_settings_set_boolean w settings key v = g_settings_set_value w settings key (Some (VBool v))"

definition g_settings_set_int :: "world \<Rightarrow> nat option \<Rightarrow> string option \<Rightarrow> 32 word \<Rightarrow> (bool \<times> world) option" where
  "g_settings_set_int w settings key v = g_settings_set_value w settings key (Some (VInt32 v))"

definition g_settings_set_double :: "world \<Rightarrow> nat option \<Rightarrow> string option \<Rightarrow> real \<Rightarrow> (bool \<times> world) option" where
  "g_settings_set_double w settings key v = g_settings_set_value w settings key (Some (VDouble v))"

text \<open>\<^verbatim>\<open>g_variant_new_string (NULL)\<close> is \<^verbatim>\<open>NULL\<close>.\<close>

definition g_settings_set_string :: "world \<Rightarrow> nat option \<Rightarrow> string option \<Rightarrow> string option \<Rightarrow> (bool \<times> world) option" where
  "g_settings_set_string w settings key v =
     g_settings_set_value w settings key (case v of None \<Rightarrow> None | Some s \<Rightarrow> Some (VString s))"

text \<open>\<^verbatim>\<open>g_settings_set_enum\<close>: \<^verbatim>\<open>FALSE\<close> on a key that is not enumerated and on a
  value without a nick; else the nick is written.\<close>

fun nick_of :: "(string \<times> 32 word) list \<Rightarrow> 32 word \<Rightarrow> string option" where
  "nick_of [] v = None"
| "nick_of ((nick, i) # rest) v = (if i = v then Some nick else nick_of rest v)"

definition g_settings_set_enum :: "world \<Rightarrow> nat option \<Rightarrow> string option \<Rightarrow> 32 word \<Rightarrow> (bool \<times> world) option" where
  "g_settings_set_enum w settings key v =
     (case enum_decl w settings key of
        None \<Rightarrow> None
      | Some None \<Rightarrow> Some (False, w)
      | Some (Some table) \<Rightarrow>
          (case nick_of table v of
             None \<Rightarrow> Some (False, w)
           | Some nick \<Rightarrow> g_settings_set_value w settings key (Some (VString nick))))"

text \<open>\<^verbatim>\<open>g_settings_reset\<close>: the stored value of the key is dropped, so that the key
  reads as its default again.\<close>

definition g_settings_reset :: "world \<Rightarrow> nat option \<Rightarrow> string option \<Rightarrow> world" where
  "g_settings_reset w settings key =
     (case settings of
        None \<Rightarrow> w
      | Some h \<Rightarrow>
          (case objects w h of
             None \<Rightarrow> w
           | Some sid \<Rightarrow>
               (case key of
                  None \<Rightarrow> w
                | Some k \<Rightarrow>
                    w\<lparr>user_values := (user_values w)(sid := (user_values w sid)(k := None))\<rparr>)))"

subsection \<open>GObject signals\<close>

text \<open>The one signal of \<^verbatim>\<open>GSettings\<close> the file connects to is the detailed signal
  \<^verbatim>\<open>changed\<close>. Signal ids are positive; 0 is the invalid id.\<close>

definition changed_signal_id :: nat where
  "changed_signal_id = 1"

text \<open>A detailed signal name \<^verbatim>\<open>name::detail\<close> is split at the colons; an unknown
  name and an empty detail do not parse.\<close>

definition signal_parse_name :: "string \<Rightarrow> (nat \<times> string option) option" where
  "signal_parse_name s =
     (if s = ''changed'' then Some (changed_signal_id, None)
      else if take 9 s = ''changed::'' \<and> drop 9 s \<noteq> []
      then Some (changed_signal_id, Some (drop 9 s))
      else None)"

definition g_quark_from_string :: "string option \<Rightarrow> string option" where
  "g_quark_from_string s = s"

text \<open>\<^verbatim>\<open>g_signal_connect\<close>: 0 on a \<^verbatim>\<open>NULL\<close> signal name, instance or callback and on
  a name that does not parse; else the handler is added and its id returned.\<close>

definition g_signal_connect :: "world \<Rightarrow> nat option \<Rightarrow> string option \<Rightarrow> nat option \<Rightarrow> nat option \<Rightarrow> nat \<times> world" where
  "g_signal_connect w instance detailed_signal c_handler data =
     (case instance of
        None \<Rightarrow> (0, w)
      | Some inst \<Rightarrow>
          (case detailed_signal of
             None \<Rightarrow> (0, w)
           | Some s \<Rightarrow>
               (case c_handler of
                  None \<Rightarrow> (0, w)
                | Some f \<Rightarrow>
                    (case signal_parse_name s of
                       None \<Rightarrow> (0, w)
                     | Some (signal_id, detail) \<Rightarrow>
                         (Suc (next_handler w),
                          w\<lparr>handlers := handlers w @
                               [\<lparr>h_instance = inst, h_id = Suc (next_handler w),
                                 h_signal_id = signal_id, h_detail = detail,
                                 h_func = f, h_data = data\<rparr>],
                            next_handler := Suc (next_handler w)\<rparr>)))))"

text \<open>The flags of \<^verbatim>\<open>GSignalMatchType\<close>.\<close>

definition G_SIGNAL_MATCH_ID :: "32 word" where "G_SIGNAL_MATCH_ID = 1"
definition G_SIGNAL_MATCH_DETAIL :: "32 word" where "G_SIGNAL_MATCH_DETAIL = 2"
definition G_SIGNAL_MATCH_CLOSURE :: "32 word" where "G_SIGNAL_MATCH_CLOSURE = 4"
definition G_SIGNAL_MATCH_FUNC :: "32 word" where "G_SIGNAL_MATCH_FUNC = 8"
definition G_SIGNAL_MATCH_DATA :: "32 word" where "G_SIGNAL_MATCH_DATA = 16"

text \<open>The operator \<^verbatim>\<open>||\<close> of C: 1 when an operand is not zero, else 0.\<close>

definition c_lor :: "32 word \<Rightarrow> 32 word \<Rightarrow> 32 word" where
  "c_lor a b = (if a \<noteq> 0 \<or> b \<noteq> 0 then 1 else 0)"

text \<open>A handler matches when every criterion the mask selects agrees. The callbacks
  of the file are C functions connected without a closure of their own, so a closure
  criterion compares with \<^verbatim>\<open>NULL\<close>.\<close>

definition handler_matches ::
  "32 word \<Rightarrow> nat \<Rightarrow> string option \<Rightarrow> nat option \<Rightarrow> nat option \<Rightarrow> nat option \<Rightarrow> handler \<Rightarrow> bool" where
  "handler_matches flags signal_id detail closure func data h =
     ((flags AND G_SIGNAL_MATCH_ID = 0 \<or> h_signal_id h = signal_id) \<and>
      (flags AND G_SIGNAL_MATCH_DETAIL = 0 \<or> h_detail h = detail) \<and>
      (flags AND G_SIGNAL_MATCH_CLOSURE = 0 \<or> closure = None) \<and>
      (flags AND G_SIGNAL_MATCH_FUNC = 0 \<or> Some (h_func h) = func) \<and>
      (flags AND G_SIGNAL_MATCH_DATA = 0 \<or> h_data h = data))"

text \<open>\<^verbatim>\<open>g_signal_handlers_disconnect_matched\<close>: the library looks for handlers only
  when the mask holds one of the closure, function and data flags; it returns the
  number of handlers it disconnected.\<close>

definition g_signal_handlers_disconnect_matched ::
  "world \<Rightarrow> nat option \<Rightarrow> 32 word \<Rightarrow> nat \<Rightarrow> string option \<Rightarrow> nat option \<Rightarrow> nat option \<Rightarrow> nat option
     \<Rightarrow> nat \<times> world" where
  "g_signal_handlers_disconnect_matched w instance flags signal_id detail closure func data =
     (case instance of
        None \<Rightarrow> (0, w)
      | Some inst \<Rightarrow>
          if flags AND (G_SIGNAL_MATCH_CLOSURE OR G_SIGNAL_MATCH_FUNC OR G_SIGNAL_MATCH_DATA) \<noteq> 0
          then
            (let hit = (\<lambda>h. h_instance h = inst \<and>
                             handler_matches flags signal_id detail closure func data h)
             in (length (filter hit (handlers w)),
                 w\<lparr>handlers := filter (\<lambda>h. \<not> hit h) (handlers w)\<rparr>))
          else (0, w))"

text \<open>\<^verbatim>\<open>g_signal_handler_disconnect\<close>: the handler of that id on the instance is
  removed; an id the instance does not have only draws a warning of the library.\<close>

definition g_signal_handler_disconnect :: "world \<Rightarrow> nat option \<Rightarrow> nat \<Rightarrow> world" where
  "g_signal_handler_disconnect w instance handler_id =
     (case instance of
        None \<Rightarrow> w
      | Some inst \<Rightarrow>
          w\<lparr>handlers := filter (\<lambda>h. \<not> (h_instance h = inst \<and> h_id h = handler_id)) (handlers w)\<rparr>)"

text \<open>\<^verbatim>\<open>g_settings_bind\<close>: the provider records the binding of the key to the property
  of the object. The object and its property are outside this model.\<close>

definition g_settings_bind :: "world \<Rightarrow> nat option \<Rightarrow> string option \<Rightarrow> nat option \<Rightarrow> string option \<Rightarrow> world" where
  "g_settings_bind w settings key object property =
     (case settings of
        None \<Rightarrow> w
      | Some h \<Rightarrow>
          (case key of
             None \<Rightarrow> w
           | Some k \<Rightarrow> w\<lparr>bindings := bindings w @ [(h, k, object, property)]\<rparr>))"

subsection \<open>Internal helper functions\<close>

text \<open>The loop of \<^verbatim>\<open>gnc_gsettings_is_valid_key\<close> over the \<^verbatim>\<open>NULL\<close>-terminated key
  array.\<close>

fun keys_loop :: "string option \<Rightarrow> string list \<Rightarrow> bool" where
  "keys_loop key [] = False"
| "keys_loop key (k # keys) =
     (if g_strcmp0 key (Some k) = 0 then True else keys_loop key keys)"

definition gnc_gsettings_is_valid_key :: "world \<Rightarrow> nat option \<Rightarrow> string option \<Rightarrow> bool option" where
  "gnc_gsettings_is_valid_key w settings key =
     (if \<not> G_IS_SETTINGS w settings then Some False
      else
        (case g_settings_list_keys w settings of
           None \<Rightarrow> None
         | Some keys \<Rightarrow>
             (case keys of
                None \<Rightarrow> Some False
              | Some ks \<Rightarrow> Some (keys_loop key ks))))"

subsection \<open>GSettings utilities\<close>

definition gnc_gsettings_set_prefix :: "world \<Rightarrow> string option \<Rightarrow> world" where
  "gnc_gsettings_set_prefix w pre = w\<lparr>gsettings_prefix := pre\<rparr>"

definition gnc_gsettings_get_prefix :: "world \<Rightarrow> string option" where
  "gnc_gsettings_get_prefix w = gsettings_prefix w"

definition gnc_gsettings_normalize_schema_name :: "world \<Rightarrow> string option \<Rightarrow> string option" where
  "gnc_gsettings_normalize_schema_name w name =
     (if name = None then g_strdup (gnc_gsettings_get_prefix w)
      else if g_str_has_prefix name (gnc_gsettings_get_prefix w) then g_strdup name
      else Some (g_strjoin ''.'' [gnc_gsettings_get_prefix w, name, None]))"

text \<open>\<^verbatim>\<open>gnc_gsettings_get_schema_ptr\<close>. The hash table hashes its key with
  \<^verbatim>\<open>g_str_hash\<close>, which reads through the pointer: a \<^verbatim>\<open>NULL\<close> full name (no prefix
  and no name) is a fault. So is a miss on a schema that is not installed, inside
  \<^verbatim>\<open>g_settings_new\<close>. The test of the new object and the warning of the source are
  kept as they are written.\<close>

definition gnc_gsettings_get_schema_ptr :: "world \<Rightarrow> string option \<Rightarrow> (nat option \<times> world) option" where
  "gnc_gsettings_get_schema_ptr w schema_str =
     (case gnc_gsettings_normalize_schema_name w schema_str of
        None \<Rightarrow> None
      | Some full_name \<Rightarrow>
          (case schema_hash w full_name of
             Some gset \<Rightarrow> Some (Some gset, w)
           | None \<Rightarrow>
               (case g_settings_new w full_name of
                  None \<Rightarrow> None
                | Some (gset, w1) \<Rightarrow>
                    (case gset of
                       None \<Rightarrow> Some (gset, log_msg (Pwarn_unknown_schema full_name) w1)
                     | Some h \<Rightarrow>
                         if G_IS_SETTINGS w1 gset
                         then Some (gset, w1\<lparr>schema_hash := (schema_hash w1)(full_name \<mapsto> h)\<rparr>)
                         else Some (gset, log_msg (Pwarn_unknown_schema full_name) w1)))))"

subsection \<open>Change notification\<close>

text \<open>\<^verbatim>\<open>g_return_val_if_fail\<close> logs the failed expression and returns. The signal
  string stays \<^verbatim>\<open>NULL\<close> for a non-empty key that is not valid.\<close>

definition gnc_gsettings_register_cb ::
  "world \<Rightarrow> string option \<Rightarrow> string option \<Rightarrow> nat option \<Rightarrow> nat option \<Rightarrow> (nat \<times> world) option" where
  "gnc_gsettings_register_cb w schema key func user_data =
     (case gnc_gsettings_get_schema_ptr w schema of
        None \<Rightarrow> None
      | Some (schema_ptr, w1) \<Rightarrow>
          if \<not> G_IS_SETTINGS w1 schema_ptr
          then Some (0, log_msg (Critical ''G_IS_SETTINGS (schema_ptr)'') w1)
          else if func = None
          then Some (0, log_msg (Critical ''func'') w1)
          else
            (case (case key of
                     None \<Rightarrow> Some (Some ''changed'')
                   | Some k \<Rightarrow>
                       if k = [] then Some (Some ''changed'')
                       else (case gnc_gsettings_is_valid_key w1 schema_ptr key of
                               None \<Rightarrow> None
                             | Some valid \<Rightarrow>
                                 Some (if valid then Some (''changed::'' @ k) else None))) of
               None \<Rightarrow> None
             | Some signal \<Rightarrow> Some (g_signal_connect w1 schema_ptr signal func user_data)))"

text \<open>\<^verbatim>\<open>gnc_gsettings_remove_cb_by_func\<close>. The mask is written with the logical
  operator in the source:
  \<^verbatim>\<open>G_SIGNAL_MATCH_DETAIL ||G_SIGNAL_MATCH_FUNC || G_SIGNAL_MATCH_DATA\<close>; the detail is
  the quark of the whole signal string.\<close>

definition gnc_gsettings_remove_cb_by_func ::
  "world \<Rightarrow> string option \<Rightarrow> string option \<Rightarrow> nat option \<Rightarrow> nat option \<Rightarrow> world option" where
  "gnc_gsettings_remove_cb_by_func w schema key func user_data =
     (case gnc_gsettings_get_schema_ptr w schema of
        None \<Rightarrow> None
      | Some (schema_ptr, w1) \<Rightarrow>
          if \<not> G_IS_SETTINGS w1 schema_ptr
          then Some (log_msg (Critical ''G_IS_SETTINGS (schema_ptr)'') w1)
          else if func = None
          then Some (log_msg (Critical ''func'') w1)
          else
            (case (case key of
                     None \<Rightarrow> Some (Some ''changed'')
                   | Some k \<Rightarrow>
                       if k = [] then Some (Some ''changed'')
                       else (case gnc_gsettings_is_valid_key w1 schema_ptr key of
                               None \<Rightarrow> None
                             | Some valid \<Rightarrow>
                                 Some (if valid then Some (''changed::'' @ k) else None))) of
               None \<Rightarrow> None
             | Some signal \<Rightarrow>
                 (case g_signal_handlers_disconnect_matched w1 schema_ptr
                         (c_lor (c_lor G_SIGNAL_MATCH_DETAIL G_SIGNAL_MATCH_FUNC) G_SIGNAL_MATCH_DATA)
                         0 (g_quark_from_string signal) None func user_data of
                    (matched, w2) \<Rightarrow> Some w2)))"

definition gnc_gsettings_register_any_cb ::
  "world \<Rightarrow> string option \<Rightarrow> nat option \<Rightarrow> nat option \<Rightarrow> (nat \<times> world) option" where
  "gnc_gsettings_register_any_cb w schema func user_data =
     gnc_gsettings_register_cb w schema None func user_data"

definition gnc_gsettings_remove_any_cb_by_func ::
  "world \<Rightarrow> string option \<Rightarrow> nat option \<Rightarrow> nat option \<Rightarrow> world option" where
  "gnc_gsettings_remove_any_cb_by_func w schema func user_data =
     gnc_gsettings_remove_cb_by_func w schema None func user_data"

definition gnc_gsettings_remove_cb_by_id :: "world \<Rightarrow> string option \<Rightarrow> nat \<Rightarrow> world option" where
  "gnc_gsettings_remove_cb_by_id w schema handlerid =
     (case gnc_gsettings_get_schema_ptr w schema of
        None \<Rightarrow> None
      | Some (schema_ptr, w1) \<Rightarrow>
          if \<not> G_IS_SETTINGS w1 schema_ptr
          then Some (log_msg (Critical ''G_IS_SETTINGS (schema_ptr)'') w1)
          else Some (g_signal_handler_disconnect w1 schema_ptr handlerid))"

definition gnc_gsettings_bind ::
  "world \<Rightarrow> string option \<Rightarrow> string option \<Rightarrow> nat option \<Rightarrow> string option \<Rightarrow> world option" where
  "gnc_gsettings_bind w schema key object property =
     (case gnc_gsettings_get_schema_ptr w schema of
        None \<Rightarrow> None
      | Some (schema_ptr, w1) \<Rightarrow>
          if \<not> G_IS_SETTINGS w1 schema_ptr
          then Some (log_msg (Critical ''G_IS_SETTINGS (schema_ptr)'') w1)
          else
            (case gnc_gsettings_is_valid_key w1 schema_ptr key of
               None \<Rightarrow> None
             | Some valid \<Rightarrow>
                 if valid then Some (g_settings_bind w1 schema_ptr key object property)
                 else Some (log_msg (Perr_invalid_key key schema) w1)))"

subsection \<open>Getters and setters\<close>

text \<open>Each accessor resolves the schema, returns through \<^verbatim>\<open>g_return_val_if_fail\<close>
  when that failed, tests the key and only then calls the provider. The six getters
  and the six setters are written out as the source has them. The result is the
  returned value and the new world, \<open>None\<close> when the lookup or the provider
  faults.\<close>

definition gnc_gsettings_get_bool :: "world \<Rightarrow> string option \<Rightarrow> string option \<Rightarrow> (bool \<times> world) option" where
  "gnc_gsettings_get_bool w schema key =
     (case gnc_gsettings_get_schema_ptr w schema of
        None \<Rightarrow> None
      | Some (schema_ptr, w1) \<Rightarrow>
          if \<not> G_IS_SETTINGS w1 schema_ptr
          then Some (False, log_msg (Critical ''G_IS_SETTINGS (schema_ptr)'') w1)
          else
            (case gnc_gsettings_is_valid_key w1 schema_ptr key of
               None \<Rightarrow> None
             | Some valid \<Rightarrow>
                 if valid
                 then (case g_settings_get_boolean w1 schema_ptr key of
                         None \<Rightarrow> None
                       | Some v \<Rightarrow> Some (v, w1))
                 else Some (False, log_msg (Perr_invalid_key key schema) w1)))"

definition gnc_gsettings_set_bool :: "world \<Rightarrow> string option \<Rightarrow> string option \<Rightarrow> bool \<Rightarrow> (bool \<times> world) option" where
  "gnc_gsettings_set_bool w schema key val =
     (case gnc_gsettings_get_schema_ptr w schema of
        None \<Rightarrow> None
      | Some (schema_ptr, w1) \<Rightarrow>
          if \<not> G_IS_SETTINGS w1 schema_ptr
          then Some (False, log_msg (Critical ''G_IS_SETTINGS (schema_ptr)'') w1)
          else
            (case gnc_gsettings_is_valid_key w1 schema_ptr key of
               None \<Rightarrow> None
             | Some valid \<Rightarrow>
                 if valid
                 then (case g_settings_set_boolean w1 schema_ptr key val of
                         None \<Rightarrow> None
                       | Some (result, w2) \<Rightarrow>
                           if \<not> result
                           then Some (result, log_msg (Perr_unable_to_set key schema) w2)
                           else Some (result, w2))
                 else Some (False, log_msg (Perr_invalid_key key schema) w1)))"

definition gnc_gsettings_get_int :: "world \<Rightarrow> string option \<Rightarrow> string option \<Rightarrow> (32 word \<times> world) option" where
  "gnc_gsettings_get_int w schema key =
     (case gnc_gsettings_get_schema_ptr w schema of
        None \<Rightarrow> None
      | Some (schema_ptr, w1) \<Rightarrow>
          if \<not> G_IS_SETTINGS w1 schema_ptr
          then Some (0, log_msg (Critical ''G_IS_SETTINGS (schema_ptr)'') w1)
          else
            (case gnc_gsettings_is_valid_key w1 schema_ptr key of
               None \<Rightarrow> None
             | Some valid \<Rightarrow>
                 if valid
                 then (case g_settings_get_int w1 schema_ptr key of
                         None \<Rightarrow> None
                       | Some v \<Rightarrow> Some (v, w1))
                 else Some (0, log_msg (Perr_invalid_key key schema) w1)))"

definition gnc_gsettings_set_int :: "world \<Rightarrow> string option \<Rightarrow> string option \<Rightarrow> 32 word \<Rightarrow> (bool \<times> world) option" where
  "gnc_gsettings_set_int w schema key val =
     (case gnc_gsettings_get_schema_ptr w schema of
        None \<Rightarrow> None
      | Some (schema_ptr, w1) \<Rightarrow>
          if \<not> G_IS_SETTINGS w1 schema_ptr
          then Some (False, log_msg (Critical ''G_IS_SETTINGS (schema_ptr)'') w1)
          else
            (case gnc_gsettings_is_valid_key w1 schema_ptr key of
               None \<Rightarrow> None
             | Some valid \<Rightarrow>
                 if valid
                 then (case g_settings_set_int w1 schema_ptr key val of
                         None \<Rightarrow> None
                       | Some (result, w2) \<Rightarrow>
                           if \<not> result
                           then Some (result, log_msg (Perr_unable_to_set key schema) w2)
                           else Some (result, w2))
                 else Some (False, log_msg (Perr_invalid_key key schema) w1)))"

definition gnc_gsettings_get_float :: "world \<Rightarrow> string option \<Rightarrow> string option \<Rightarrow> (real \<times> world) option" where
  "gnc_gsettings_get_float w schema key =
     (case gnc_gsettings_get_schema_ptr w schema of
        None \<Rightarrow> None
      | Some (schema_ptr, w1) \<Rightarrow>
          if \<not> G_IS_SETTINGS w1 schema_ptr
          then Some (0, log_msg (Critical ''G_IS_SETTINGS (schema_ptr)'') w1)
          else
            (case gnc_gsettings_is_valid_key w1 schema_ptr key of
               None \<Rightarrow> None
             | Some valid \<Rightarrow>
                 if valid
                 then (case g_settings_get_double w1 schema_ptr key of
                         None \<Rightarrow> None
                       | Some v \<Rightarrow> Some (v, w1))
                 else Some (0, log_msg (Perr_invalid_key key schema) w1)))"

definition gnc_gsettings_set_float :: "world \<Rightarrow> string option \<Rightarrow> string option \<Rightarrow> real \<Rightarrow> (bool \<times> world) option" where
  "gnc_gsettings_set_float w schema key val =
     (case gnc_gsettings_get_schema_ptr w schema of
        None \<Rightarrow> None
      | Some (schema_ptr, w1) \<Rightarrow>
          if \<not> G_IS_SETTINGS w1 schema_ptr
          then Some (False, log_msg (Critical ''G_IS_SETTINGS (schema_ptr)'') w1)
          else
            (case gnc_gsettings_is_valid_key w1 schema_ptr key of
               None \<Rightarrow> None
             | Some valid \<Rightarrow>
                 if valid
                 then (case g_settings_set_double w1 schema_ptr key val of
                         None \<Rightarrow> None
                       | Some (result, w2) \<Rightarrow>
                           if \<not> result
                           then Some (result, log_msg (Perr_unable_to_set key schema) w2)
                           else Some (result, w2))
                 else Some (False, log_msg (Perr_invalid_key key schema) w1)))"

definition gnc_gsettings_get_string :: "world \<Rightarrow> string option \<Rightarrow> string option \<Rightarrow> (string option \<times> world) option" where
  "gnc_gsettings_get_string w schema key =
     (case gnc_gsettings_get_schema_ptr w schema of
        None \<Rightarrow> None
      | Some (schema_ptr, w1) \<Rightarrow>
          if \<not> G_IS_SETTINGS w1 schema_ptr
          then Some (None, log_msg (Critical ''G_IS_SETTINGS (schema_ptr)'') w1)
          else
            (case gnc_gsettings_is_valid_key w1 schema_ptr key of
               None \<Rightarrow> None
             | Some valid \<Rightarrow>
                 if valid
                 then (case g_settings_get_string w1 schema_ptr key of
                         None \<Rightarrow> None
                       | Some v \<Rightarrow> Some (v, w1))
                 else Some (None, log_msg (Perr_invalid_key key schema) w1)))"

definition gnc_gsettings_set_string :: "world \<Rightarrow> string option \<Rightarrow> string option \<Rightarrow> string option \<Rightarrow> (bool \<times> world) option" where
  "gnc_gsettings_set_string w schema key val =
     (case gnc_gsettings_get_schema_ptr w schema of
        None \<Rightarrow> None
      | Some (schema_ptr, w1) \<Rightarrow>
          if \<not> G_IS_SETTINGS w1 schema_ptr
          then Some (False, log_msg (Critical ''G_IS_SETTINGS (schema_ptr)'') w1)
          else
            (case gnc_gsettings_is_valid_key w1 schema_ptr key of
               None \<Rightarrow> None
             | Some valid \<Rightarrow>
                 if valid
                 then (case g_settings_set_string w1 schema_ptr key val of
                         None \<Rightarrow> None
                       | Some (result, w2) \<Rightarrow>
                           if \<not> result
                           then Some (result, log_msg (Perr_unable_to_set key schema) w2)
                           else Some (result, w2))
                 else Some (False, log_msg (Perr_invalid_key key schema) w1)))"

definition gnc_gsettings_get_enum :: "world \<Rightarrow> string option \<Rightarrow> string option \<Rightarrow> (32 word \<times> world) option" where
  "gnc_gsettings_get_enum w schema key =
     (case gnc_gsettings_get_schema_ptr w schema of
        None \<Rightarrow> None
      | Some (schema_ptr, w1) \<Rightarrow>
          if \<not> G_IS_SETTINGS w1 schema_ptr
          then Some (0, log_msg (Critical ''G_IS_SETTINGS (schema_ptr)'') w1)
          else
            (case gnc_gsettings_is_valid_key w1 schema_ptr key of
               None \<Rightarrow> None
             | Some valid \<Rightarrow>
                 if valid
                 then (case g_settings_get_enum w1 schema_ptr key of
                         None \<Rightarrow> None
                       | Some v \<Rightarrow> Some (v, w1))
                 else Some (0, log_msg (Perr_invalid_key key schema) w1)))"

definition gnc_gsettings_set_enum :: "world \<Rightarrow> string option \<Rightarrow> string option \<Rightarrow> 32 word \<Rightarrow> (bool \<times> world) option" where
  "gnc_gsettings_set_enum w schema key val =
     (case gnc_gsettings_get_schema_ptr w schema of
        None \<Rightarrow> None
      | Some (schema_ptr, w1) \<Rightarrow>
          if \<not> G_IS_SETTINGS w1 schema_ptr
          then Some (False, log_msg (Critical ''G_IS_SETTINGS (schema_ptr)'') w1)
          else
            (case gnc_gsettings_is_valid_key w1 schema_ptr key of
               None \<Rightarrow> None
             | Some valid \<Rightarrow>
                 if valid
                 then (case g_settings_set_enum w1 schema_ptr key val of
                         None \<Rightarrow> None
                       | Some (result, w2) \<Rightarrow>
                           if \<not> result
                           then Some (result, log_msg (Perr_unable_to_set key schema) w2)
                           else Some (result, w2))
                 else Some (False, log_msg (Perr_invalid_key key schema) w1)))"

definition gnc_gsettings_get_value :: "world \<Rightarrow> string option \<Rightarrow> string option \<Rightarrow> (gvariant option \<times> world) option" where
  "gnc_gsettings_get_value w schema key =
     (case gnc_gsettings_get_schema_ptr w schema of
        None \<Rightarrow> None
      | Some (schema_ptr, w1) \<Rightarrow>
          if \<not> G_IS_SETTINGS w1 schema_ptr
          then Some (None, log_msg (Critical ''G_IS_SETTINGS (schema_ptr)'') w1)
          else
            (case gnc_gsettings_is_valid_key w1 schema_ptr key of
               None \<Rightarrow> None
             | Some valid \<Rightarrow>
                 if valid
                 then (case g_settings_get_value w1 schema_ptr key of
                         None \<Rightarrow> None
                       | Some v \<Rightarrow> Some (v, w1))
                 else Some (None, log_msg (Perr_invalid_key key schema) w1)))"

definition gnc_gsettings_set_value :: "world \<Rightarrow> string option \<Rightarrow> string option \<Rightarrow> gvariant option \<Rightarrow> (bool \<times> world) option" where
  "gnc_gsettings_set_value w schema key val =
     (case gnc_gsettings_get_schema_ptr w schema of
        None \<Rightarrow> None
      | Some (schema_ptr, w1) \<Rightarrow>
          if \<not> G_IS_SETTINGS w1 schema_ptr
          then Some (False, log_msg (Critical ''G_IS_SETTINGS (schema_ptr)'') w1)
          else
            (case gnc_gsettings_is_valid_key w1 schema_ptr key of
               None \<Rightarrow> None
             | Some valid \<Rightarrow>
                 if valid
                 then (case g_settings_set_value w1 schema_ptr key val of
                         None \<Rightarrow> None
                       | Some (result, w2) \<Rightarrow>
                           if \<not> result
                           then Some (result, log_msg (Perr_unable_to_set key schema) w2)
                           else Some (result, w2))
                 else Some (False, log_msg (Perr_invalid_key key schema) w1)))"

definition gnc_gsettings_reset :: "world \<Rightarrow> string option \<Rightarrow> string option \<Rightarrow> world option" where
  "gnc_gsettings_reset w schema key =
     (case gnc_gsettings_get_schema_ptr w schema of
        None \<Rightarrow> None
      | Some (schema_ptr, w1) \<Rightarrow>
          if \<not> G_IS_SETTINGS w1 schema_ptr
          then Some (log_msg (Critical ''G_IS_SETTINGS (schema_ptr)'') w1)
          else
            (case gnc_gsettings_is_valid_key w1 schema_ptr key of
               None \<Rightarrow> None
             | Some valid \<Rightarrow>
                 if valid then Some (g_settings_reset w1 schema_ptr key)
                 else Some (log_msg (Perr_invalid_key key schema) w1)))"

text \<open>The loop of \<^verbatim>\<open>gnc_gsettings_reset_schema\<close> over the key array: one call of
  \<^verbatim>\<open>gnc_gsettings_reset\<close> for each key, in the order of the array.\<close>

fun reset_loop :: "world \<Rightarrow> string option \<Rightarrow> string list \<Rightarrow> world option" where
  "reset_loop w schema [] = Some w"
| "reset_loop w schema (k # keys) =
     (case gnc_gsettings_reset w schema (Some k) of
        None \<Rightarrow> None
      | Some w1 \<Rightarrow> reset_loop w1 schema keys)"

definition gnc_gsettings_reset_schema :: "world \<Rightarrow> string option \<Rightarrow> world option" where
  "gnc_gsettings_reset_schema w schema =
     (case gnc_gsettings_get_schema_ptr w schema of
        None \<Rightarrow> None
      | Some (schema_ptr, w1) \<Rightarrow>
          (case g_settings_list_keys w1 schema_ptr of
             None \<Rightarrow> None
           | Some keys \<Rightarrow>
               (case keys of
                  None \<Rightarrow> Some w1
                | Some ks \<Rightarrow> reset_loop w1 schema ks)))"

subsection \<open>Runs of the program\<close>

text \<open>A run of the process after startup is a sequence of calls of the functions
  above (the members of the dispatch table that \<^verbatim>\<open>gnc_gsettings_load_backend\<close>
  fills, and the lookup itself). \<^verbatim>\<open>gnc_gsettings_set_prefix\<close> is the startup call
  and not among them.\<close>

datatype call =
    Get_schema_ptr "string option"
  | Register_cb "string option" "string option" "nat option" "nat option"
  | Remove_cb_by_func "string option" "string option" "nat option" "nat option"
  | Remove_cb_by_id "string option" nat
  | Register_any_cb "string option" "nat option" "nat option"
  | Remove_any_cb_by_func "string option" "nat option" "nat option"
  | Bind "string option" "string option" "nat option" "string option"
  | Get_bool "string option" "string option"
  | Get_int "string option" "string option"
  | Get_float "string option" "string option"
  | Get_string "string option" "string option"
  | Get_enum "string option" "string option"
  | Get_value "string option" "string option"
  | Set_bool "string option" "string option" bool
  | Set_int "string option" "string option" "32 word"
  | Set_float "string option" "string option" real
  | Set_string "string option" "string option" "string option"
  | Set_enum "string option" "string option" "32 word"
  | Set_value "string option" "string option" "gvariant option"
  | Reset "string option" "string option"
  | Reset_schema "string option"

text \<open>The world after a call; \<open>None\<close> when the call faults.\<close>

fun run_call :: "world \<Rightarrow> call \<Rightarrow> world option" where
  "run_call w (Get_schema_ptr s) = map_option snd (gnc_gsettings_get_schema_ptr w s)"
| "run_call w (Register_cb s k f u) = map_option snd (gnc_gsettings_register_cb w s k f u)"
| "run_call w (Remove_cb_by_func s k f u) = gnc_gsettings_remove_cb_by_func w s k f u"
| "run_call w (Remove_cb_by_id s i) = gnc_gsettings_remove_cb_by_id w s i"
| "run_call w (Register_any_cb s f u) = map_option snd (gnc_gsettings_register_any_cb w s f u)"
| "run_call w (Remove_any_cb_by_func s f u) = gnc_gsettings_remove_any_cb_by_func w s f u"
| "run_call w (Bind s k ob pr) = gnc_gsettings_bind w s k ob pr"
| "run_call w (Get_bool s k) = map_option snd (gnc_gsettings_get_bool w s k)"
| "run_call w (Get_int s k) = map_option snd (gnc_gsettings_get_int w s k)"
| "run_call w (Get_float s k) = map_option snd (gnc_gsettings_get_float w s k)"
| "run_call w (Get_string s k) = map_option snd (gnc_gsettings_get_string w s k)"
| "run_call w (Get_enum s k) = map_option snd (gnc_gsettings_get_enum w s k)"
| "run_call w (Get_value s k) = map_option snd (gnc_gsettings_get_value w s k)"
| "run_call w (Set_bool s k v) = map_option snd (gnc_gsettings_set_bool w s k v)"
| "run_call w (Set_int s k v) = map_option snd (gnc_gsettings_set_int w s k v)"
| "run_call w (Set_float s k v) = map_option snd (gnc_gsettings_set_float w s k v)"
| "run_call w (Set_string s k v) = map_option snd (gnc_gsettings_set_string w s k v)"
| "run_call w (Set_enum s k v) = map_option snd (gnc_gsettings_set_enum w s k v)"
| "run_call w (Set_value s k v) = map_option snd (gnc_gsettings_set_value w s k v)"
| "run_call w (Reset s k) = gnc_gsettings_reset w s k"
| "run_call w (Reset_schema s) = gnc_gsettings_reset_schema w s"

fun run_calls :: "world \<Rightarrow> call list \<Rightarrow> world option" where
  "run_calls w [] = Some w"
| "run_calls w (c # cs) = (case run_call w c of None \<Rightarrow> None | Some w1 \<Rightarrow> run_calls w1 cs)"

text \<open>The catalog only grows: the prefix is the same and every entry of the hash
  table is still there.\<close>

definition catalog_le :: "world \<Rightarrow> world \<Rightarrow> bool" where
  "catalog_le w w' =
     (gsettings_prefix w' = gsettings_prefix w \<and> schema_hash w \<subseteq>\<^sub>m schema_hash w')"

subsection \<open>Ownership of the normalized name\<close>

text \<open>\<^verbatim>\<open>gnc_gsettings_normalize_schema_name\<close> once more, with the strings on a heap, to
  tell a copy from the original. The heap is the list of the strings allocated so far
  and an address is an index into it, so an allocation appends and returns the old
  length. Reading through an address the heap does not hold is a fault.\<close>

type_synonym strheap = "string list"

definition heap_read :: "strheap \<Rightarrow> nat \<Rightarrow> string option" where
  "heap_read H a = (if a < length H then Some (H ! a) else None)"

definition heap_alloc :: "strheap \<Rightarrow> string \<Rightarrow> nat option \<times> strheap" where
  "heap_alloc H s = (Some (length H), H @ [s])"

definition heap_g_strdup :: "strheap \<Rightarrow> nat option \<Rightarrow> (nat option \<times> strheap) option" where
  "heap_g_strdup H str =
     (case str of
        None \<Rightarrow> Some (None, H)
      | Some a \<Rightarrow> (case heap_read H a of None \<Rightarrow> None | Some s \<Rightarrow> Some (heap_alloc H s)))"

definition heap_g_str_has_prefix :: "strheap \<Rightarrow> nat option \<Rightarrow> nat option \<Rightarrow> bool option" where
  "heap_g_str_has_prefix H str pre =
     (case str of
        None \<Rightarrow> Some False
      | Some a \<Rightarrow>
          (case pre of
             None \<Rightarrow> Some False
           | Some b \<Rightarrow>
               (case heap_read H a of
                  None \<Rightarrow> None
                | Some s \<Rightarrow>
                    (case heap_read H b of
                       None \<Rightarrow> None
                     | Some p \<Rightarrow> Some (g_str_has_prefix (Some s) (Some p))))))"

text \<open>The variable argument list read through the heap, up to its first \<^verbatim>\<open>NULL\<close>.\<close>

fun heap_va_strings :: "strheap \<Rightarrow> nat option list \<Rightarrow> string list option" where
  "heap_va_strings H [] = Some []"
| "heap_va_strings H (None # rest) = Some []"
| "heap_va_strings H (Some a # rest) =
     (case heap_read H a of
        None \<Rightarrow> None
      | Some s \<Rightarrow> (case heap_va_strings H rest of None \<Rightarrow> None | Some ss \<Rightarrow> Some (s # ss)))"

definition heap_g_strjoin :: "strheap \<Rightarrow> string \<Rightarrow> nat option list \<Rightarrow> (nat option \<times> strheap) option" where
  "heap_g_strjoin H separator args =
     (case heap_va_strings H args of
        None \<Rightarrow> None
      | Some ss \<Rightarrow> Some (heap_alloc H (join_with separator ss)))"

text \<open>The arguments are the heap, the pointer held by the static \<^verbatim>\<open>gsettings_prefix\<close>
  and the name.\<close>

definition normalize_schema_name_heap :: "strheap \<Rightarrow> nat option \<Rightarrow> nat option \<Rightarrow> (nat option \<times> strheap) option" where
  "normalize_schema_name_heap H prefix_ptr name =
     (if name = None then heap_g_strdup H prefix_ptr
      else
        (case heap_g_str_has_prefix H name prefix_ptr of
           None \<Rightarrow> None
         | Some b \<Rightarrow>
             if b then heap_g_strdup H name
             else heap_g_strjoin H ''.'' [prefix_ptr, name, None]))"

subsection \<open>Migration from gconf\<close>

text \<open>The migration calls into libxml2, libxslt, the C library and Guile. What these
  return is taken from an environment: the value of \<^verbatim>\<open>HOME\<close>, the package data
  directory, \<^verbatim>\<open>g_build_filename\<close>, and the results of parsing, transforming and
  opening files. Documents, stylesheets and streams are addresses, \<^verbatim>\<open>NULL\<close> being
  \<open>None\<close>.\<close>

record mig_env =
  g_getenv_HOME :: "string option"
  gnc_path_get_pkgdatadir :: string
  g_build_filename :: "string option list \<Rightarrow> string"
  xsltParseStylesheetFile :: "string \<Rightarrow> nat option"
  xmlParseFile :: "string \<Rightarrow> nat option"
  xsltApplyStylesheet :: "nat option \<Rightarrow> nat option \<Rightarrow> nat option"
  fopen_w :: "string \<Rightarrow> nat option"

text \<open>The parser context as far as the entity loader touches it: the SAX handler and
  its warning callback, both nullable.\<close>

record xmlSAXHandler =
  sax_warning :: "nat option"

record xmlParserCtxt =
  ctxt_sax :: "xmlSAXHandler option"

text \<open>The result of the entity loader: the input it returns, the context as it leaves
  it, and the URLs it has reported through the warning callback.\<close>

record 'i loader_result =
  lr_ret :: "'i option"
  lr_ctxt :: "xmlParserCtxt option"
  lr_warned :: "string list"

text \<open>The scan for the last segment: \<open>iter\<close> runs over the URL, and after each slash
  \<open>lastsegment\<close> is set to the rest.\<close>

fun lastsegment_loop :: "string \<Rightarrow> string \<Rightarrow> string" where
  "lastsegment_loop [] lastsegment = lastsegment"
| "lastsegment_loop (c # iter) lastsegment =
     (if c = CHR ''/'' then lastsegment_loop iter iter else lastsegment_loop iter lastsegment)"

definition saved_warning :: "xmlParserCtxt option \<Rightarrow> nat option" where
  "saved_warning ctxt =
     (case ctxt of
        None \<Rightarrow> None
      | Some c \<Rightarrow> (case ctxt_sax c of None \<Rightarrow> None | Some s \<Rightarrow> sax_warning s))"

definition set_warning :: "nat option \<Rightarrow> xmlParserCtxt option \<Rightarrow> xmlParserCtxt option" where
  "set_warning f ctxt =
     (case ctxt of
        None \<Rightarrow> None
      | Some c \<Rightarrow>
          (case ctxt_sax c of
             None \<Rightarrow> Some c
           | Some s \<Rightarrow> Some (c\<lparr>ctxt_sax := Some (s\<lparr>sax_warning := f\<rparr>)\<rparr>)))"

text \<open>The path the loader tries after the default loader gave nothing.\<close>

definition fallback_url :: "mig_env \<Rightarrow> string \<Rightarrow> string" where
  "fallback_url env url =
     (let tmpdir = g_build_filename env [g_getenv_HOME env, Some ''.gnc-migration-tmp'', None];
          lastsegment = lastsegment_loop url url
      in tmpdir @ ''/'' @ lastsegment)"

text \<open>\<^verbatim>\<open>xsltprocExternalEntityLoader\<close>. The first argument is the static
  \<^verbatim>\<open>defaultEntityLoader\<close>, a nullable function pointer. The scan reads through
  \<^verbatim>\<open>URL\<close>, so a \<^verbatim>\<open>NULL\<close> URL is a fault, and so is the second call of the default
  loader when the pointer is \<^verbatim>\<open>NULL\<close>. The default loader is called with the
  warning callback taken out of the context. Running out of memory in
  \<^verbatim>\<open>xmlStrdup\<close> and \<^verbatim>\<open>xmlStrcat\<close> is left out.\<close>

definition xsltprocExternalEntityLoader ::
  "(string \<Rightarrow> string option \<Rightarrow> xmlParserCtxt option \<Rightarrow> 'i option) option \<Rightarrow> mig_env \<Rightarrow>
   string option \<Rightarrow> string option \<Rightarrow> xmlParserCtxt option \<Rightarrow> 'i loader_result option" where
  "xsltprocExternalEntityLoader defaultEntityLoader env URL ID ctxt =
     (case URL of
        None \<Rightarrow> None
      | Some url \<Rightarrow>
          (let warning = saved_warning ctxt;
               ctxt1 = set_warning None ctxt;
               restored = (if warning \<noteq> None then set_warning warning ctxt1 else ctxt1)
           in case (case defaultEntityLoader of
                      None \<Rightarrow> None
                    | Some loader \<Rightarrow> loader url ID ctxt1) of
                Some ret \<Rightarrow> Some \<lparr>lr_ret = Some ret, lr_ctxt = restored, lr_warned = []\<rparr>
              | None \<Rightarrow>
                  (case defaultEntityLoader of
                     None \<Rightarrow> None
                   | Some loader \<Rightarrow>
                       (case loader (fallback_url env url) ID ctxt1 of
                          Some ret \<Rightarrow>
                            Some \<lparr>lr_ret = Some ret, lr_ctxt = restored, lr_warned = []\<rparr>
                        | None \<Rightarrow>
                            Some \<lparr>lr_ret = None, lr_ctxt = restored,
                                  lr_warned = (if warning \<noteq> None then [url] else [])\<rparr>))))"

text \<open>The calls \<^verbatim>\<open>gnc_gsettings_migrate_from_gconf\<close> makes, in the order it makes
  them, with their arguments.\<close>

datatype mig_step =
    Scm_c_eval_string string
  | Xml_substitute_entities_default
  | Xml_set_load_ext_dtd_default
  | Xml_get_external_entity_loader
  | Xml_set_external_entity_loader
  | Xslt_parse_stylesheet_file string
  | Xml_parse_file string
  | Xslt_apply_stylesheet "nat option" "nat option"
  | Fopen_w string
  | Xslt_save_result_to_file "nat option" "nat option" "nat option"
  | Fclose "nat option"
  | Scm_primitive_load string
  | Xslt_free_stylesheet "nat option"
  | Xml_free_doc "nat option"
  | Xslt_cleanup_globals
  | Xml_cleanup_parser

text \<open>How a run of the function ends: it returns, or the process faults in
  \<^verbatim>\<open>fclose\<close> on the \<^verbatim>\<open>NULL\<close> stream of a failed \<^verbatim>\<open>fopen\<close>, or a call into Guile
  (\<^verbatim>\<open>scm_c_eval_string\<close>, \<^verbatim>\<open>scm_primitive_load\<close>) raises an error and leaves the
  function by a non-local exit.\<close>

datatype mig_outcome = Returned | Fault_fclose | Guile_exit

text \<open>\<^verbatim>\<open>gnc_gsettings_migrate_from_gconf\<close>: the steps made and how the run ends. The
  function tests no result. Whether a call into Guile returns depends on the
  interpreter and on what it is given; it is the first argument, a predicate on the
  step. The building and freeing of the path strings are no steps. What Guile and the
  libraries do inside a step (the parsers call the entity loader; the writes to the
  settings store happen inside the evaluation of \<^verbatim>\<open>run-migration\<close>) is not part of
  this model.\<close>

definition gnc_gsettings_migrate_from_gconf ::
  "(mig_step \<Rightarrow> bool) \<Rightarrow> mig_env \<Rightarrow> mig_step list \<times> mig_outcome" where
  "gnc_gsettings_migrate_from_gconf guile_returns env =
     (let prepare = Scm_c_eval_string ''(use-modules (gnucash app-utils))(migration-prepare)'';
          pkgdatadir = gnc_path_get_pkgdatadir env;
          stylesheet = g_build_filename env
            [Some pkgdatadir, Some ''make-prefs-migration-script.xsl'', None];
          input = g_build_filename env [Some pkgdatadir, Some ''migratable-prefs.xml'', None];
          migr_dir = g_build_filename env [g_getenv_HOME env, Some ''.gnc-migration-tmp'', None];
          output = g_build_filename env [Some migr_dir, Some ''migrate-prefs-user.scm'', None];
          stylesheetptr = xsltParseStylesheetFile env stylesheet;
          inputxml = xmlParseFile env input;
          transformedxml = xsltApplyStylesheet env stylesheetptr inputxml;
          outfile = fopen_w env output;
          transform =
            [Xml_substitute_entities_default,
             Xml_set_load_ext_dtd_default,
             Xml_get_external_entity_loader,
             Xml_set_external_entity_loader,
             Xslt_parse_stylesheet_file stylesheet,
             Xml_parse_file input,
             Xslt_apply_stylesheet stylesheetptr inputxml,
             Fopen_w output,
             Xslt_save_result_to_file outfile transformedxml stylesheetptr,
             Fclose outfile];
          load = Scm_primitive_load output;
          run = Scm_c_eval_string ''(use-modules (migrate-prefs-user))(run-migration)'';
          release =
            [Xslt_free_stylesheet stylesheetptr,
             Xml_free_doc inputxml,
             Xml_free_doc transformedxml,
             Xslt_cleanup_globals,
             Xml_cleanup_parser];
          cleanup = Scm_c_eval_string ''(use-modules (gnucash app-utils))(migration-cleanup)''
      in if \<not> guile_returns prepare then ([prepare], Guile_exit)
         else if outfile = None then (prepare # transform, Fault_fclose)
         else if \<not> guile_returns load then (prepare # transform @ [load], Guile_exit)
         else if \<not> guile_returns run then (prepare # transform @ [load, run], Guile_exit)
         else if \<not> guile_returns cleanup
         then (prepare # transform @ [load, run] @ release @ [cleanup], Guile_exit)
         else (prepare # transform @ [load, run] @ release @ [cleanup], Returned))"

subsection \<open>Example worlds\<close>

text \<open>The setup of the scenarios: prefix \<^verbatim>\<open>org.ex.app\<close>, one installed schema
  \<^verbatim>\<open>org.ex.app.general\<close> with the integer key \<^verbatim>\<open>window.width\<close> of default 800,
  and beside it an enumerated key and a key the backend has locked.\<close>

definition width_decl :: key_decl where
  "width_decl =
     \<lparr>key_default = VInt32 800, key_enum = None, key_range = (\<lambda>v. True), key_writable = True\<rparr>"

definition mode_decl :: key_decl where
  "mode_decl =
     \<lparr>key_default = VString ''fast'', key_enum = Some [(''fast'', 0), (''slow'', 1)],
      key_range = (\<lambda>v. v = VString ''fast'' \<or> v = VString ''slow''), key_writable = True\<rparr>"

definition locked_decl :: key_decl where
  "locked_decl =
     \<lparr>key_default = VBool False, key_enum = None, key_range = (\<lambda>v. True), key_writable = False\<rparr>"

definition example_world :: world where
  "example_world =
     \<lparr>gsettings_prefix = Some ''org.ex.app'',
      schema_hash = Map.empty,
      installed =
        [''org.ex.app.general'' \<mapsto>
           [(''window.width'', width_decl), (''mode'', mode_decl), (''locked'', locked_decl)]],
      objects = Map.empty,
      next_object = 1,
      user_values = (\<lambda>sid. Map.empty),
      handlers = [],
      next_handler = 0,
      bindings = [],
      qof_log = []\<rparr>"

text \<open>The example world after two writes.\<close>

definition written_world :: world where
  "written_world =
     example_world\<lparr>user_values :=
       (\<lambda>sid. if sid = ''org.ex.app.general''
              then [''window.width'' \<mapsto> VInt32 1024, ''mode'' \<mapsto> VString ''slow'']
              else Map.empty)\<rparr>"

text \<open>An environment of the migration in which the stylesheet is missing: the
  manifest parses, the stylesheet does not, so there is nothing to apply; the output
  file can be opened.\<close>

definition missing_stylesheet_env :: mig_env where
  "missing_stylesheet_env =
     \<lparr>g_getenv_HOME = Some ''/home/u'',
      gnc_path_get_pkgdatadir = ''/usr/share/gnucash'',
      g_build_filename = (\<lambda>args. join_with ''/'' (va_strings args)),
      xsltParseStylesheetFile = (\<lambda>path. None),
      xmlParseFile = (\<lambda>path. if path = ''/usr/share/gnucash/migratable-prefs.xml'' then Some 1 else None),
      xsltApplyStylesheet = (\<lambda>style doc. None),
      fopen_w = (\<lambda>path. Some 2)\<rparr>"

text \<open>A default entity loader that finds one file, in the scratch directory.\<close>

definition scratch_loader :: "string \<Rightarrow> string option \<Rightarrow> xmlParserCtxt option \<Rightarrow> nat option" where
  "scratch_loader url ID ctxt =
     (if url = ''/home/u/.gnc-migration-tmp/gconf-general.xml'' then Some 5 else None)"

section \<open>Properties\<close>

subsection \<open>Normalization of schema names\<close>

lemma normalize_value:
  "gsettings_prefix w = Some p \<Longrightarrow>
   gnc_gsettings_normalize_schema_name w name =
     (case name of
        None \<Rightarrow> Some p
      | Some n \<Rightarrow>
          if length p \<le> length n \<and> take (length p) n = p then Some n
          else Some (p @ ''.'' @ n))"
  by (simp add: gnc_gsettings_normalize_schema_name_def gnc_gsettings_get_prefix_def
      g_str_has_prefix_def g_strjoin_def g_strdup_def split: option.splits)

lemma normalize_heap_absent:
  "heap_read H pp = Some p \<Longrightarrow>
   normalize_schema_name_heap H (Some pp) None = Some (Some (length H), H @ [p])"
  by (simp add: normalize_schema_name_heap_def heap_g_strdup_def heap_alloc_def)

lemma normalize_heap_present:
  "heap_read H pp = Some p \<Longrightarrow> heap_read H a = Some n \<Longrightarrow>
   normalize_schema_name_heap H (Some pp) (Some a) =
     Some (Some (length H),
           H @ [if length p \<le> length n \<and> take (length p) n = p then n else p @ ''.'' @ n])"
  by (simp add: normalize_schema_name_heap_def heap_g_strdup_def heap_alloc_def
      heap_g_str_has_prefix_def g_str_has_prefix_def heap_g_strjoin_def)

text \<open>
  Claim C2, as the code has it. With the prefix set, the function returns the prefix
  for an absent name, the name itself when the name starts with the prefix, and
  prefix, dot and name joined for every other name; the empty name is no case of its
  own (the source tests \<^verbatim>\<open>name == NULL\<close> only), so under a non-empty prefix it comes
  back as the prefix followed by a dot. On the heap the result is in every case a
  string allocated by the call: its address is the first one the heap did not hold
  before, and the strings that were there are unchanged.
\<close>

theorem normalize_schema_name_cases_and_ownership:
  assumes "gsettings_prefix w = Some p"
    and "heap_read H pp = Some p"
    and "heap_read H a = Some n"
  shows "gnc_gsettings_normalize_schema_name w None = Some p \<and>
         gnc_gsettings_normalize_schema_name w (Some n) =
           Some (if length p \<le> length n \<and> take (length p) n = p then n else p @ ''.'' @ n) \<and>
         normalize_schema_name_heap H (Some pp) None = Some (Some (length H), H @ [p]) \<and>
         normalize_schema_name_heap H (Some pp) (Some a) =
           Some (Some (length H),
                 H @ [if length p \<le> length n \<and> take (length p) n = p then n else p @ ''.'' @ n]) \<and>
         heap_read H (length H) = None \<and> length H \<noteq> pp \<and> length H \<noteq> a"
proof -
  have fresh: "heap_read H (length H) = None"
    by (simp add: heap_read_def)
  have "pp < length H" "a < length H"
    using assms(2,3) by (auto simp: heap_read_def split: if_splits)
  then have "length H \<noteq> pp" "length H \<noteq> a"
    by simp_all
  moreover have "gnc_gsettings_normalize_schema_name w None = Some p"
    using assms(1) by (simp add: normalize_value)
  moreover have "gnc_gsettings_normalize_schema_name w (Some n) =
      Some (if length p \<le> length n \<and> take (length p) n = p then n else p @ ''.'' @ n)"
    using assms(1) by (simp add: normalize_value)
  ultimately show ?thesis
    using fresh normalize_heap_absent [OF assms(2)] normalize_heap_present [OF assms(2,3)]
    by simp
qed

theorem normalize_schema_name_cases_and_ownership_witness:
  "gnc_gsettings_normalize_schema_name example_world None = Some ''org.ex.app'' \<and>
   gnc_gsettings_normalize_schema_name example_world (Some ''general'') = Some ''org.ex.app.general'' \<and>
   normalize_schema_name_heap [''org.ex.app'', ''general''] (Some 0) None =
     Some (Some 2, [''org.ex.app'', ''general'', ''org.ex.app'']) \<and>
   normalize_schema_name_heap [''org.ex.app'', ''general''] (Some 0) (Some 1) =
     Some (Some 2, [''org.ex.app'', ''general'', ''org.ex.app.general''])"
  using normalize_schema_name_cases_and_ownership
    [of example_world "''org.ex.app''" "[''org.ex.app'', ''general'']" 0 1 "''general''"]
  by (simp add: example_world_def heap_read_def)

theorem normalize_empty_name_counterexample:
  "gnc_gsettings_normalize_schema_name example_world (Some []) = Some ''org.ex.app.'' \<and>
   gnc_gsettings_get_prefix example_world = Some ''org.ex.app'' \<and>
   gnc_gsettings_normalize_schema_name example_world (Some []) \<noteq>
     gnc_gsettings_get_prefix example_world"
  by (simp add: gnc_gsettings_normalize_schema_name_def example_world_def
      gnc_gsettings_get_prefix_def g_str_has_prefix_def g_strjoin_def g_strdup_def)

text \<open>
  Claim C9. Whether a name is already fully qualified is decided by a plain prefix
  test, with no dot required after the prefix: every non-empty name whose first
  characters are the prefix comes back unchanged, not joined to the prefix.
\<close>

theorem normalize_plain_prefix_test:
  assumes "gsettings_prefix w = Some p"
    and "n \<noteq> []"
    and "take (length p) n = p"
  shows "gnc_gsettings_normalize_schema_name w (Some n) = Some n \<and>
         gnc_gsettings_normalize_schema_name w (Some n) \<noteq> Some (p @ ''.'' @ n)"
proof -
  have "length (take (length p) n) = length p"
    using assms(3) by simp
  then have "length p \<le> length n"
    by simp
  then show ?thesis
    using assms by (simp add: normalize_value)
qed

theorem normalize_plain_prefix_test_witness:
  "gnc_gsettings_normalize_schema_name example_world (Some ''org.ex.application'') =
     Some ''org.ex.application'' \<and>
   gnc_gsettings_normalize_schema_name example_world (Some ''org.ex.application'') \<noteq>
     Some (''org.ex.app'' @ ''.'' @ ''org.ex.application'')"
  using normalize_plain_prefix_test [of example_world "''org.ex.app''" "''org.ex.application''"]
  by (simp add: example_world_def)

subsection \<open>The schema catalog\<close>

lemma catalog_le_refl: "catalog_le w w"
  by (simp add: catalog_le_def)

lemma catalog_le_trans: "catalog_le a b \<Longrightarrow> catalog_le b c \<Longrightarrow> catalog_le a c"
  unfolding catalog_le_def by (auto intro: map_le_trans)

lemma catalog_le_same:
  "gsettings_prefix w' = gsettings_prefix w \<Longrightarrow> schema_hash w' = schema_hash w \<Longrightarrow> catalog_le w w'"
  by (simp add: catalog_le_def)

lemma catalog_le_step:
  "catalog_le w w1 \<Longrightarrow> gsettings_prefix w2 = gsettings_prefix w1 \<Longrightarrow>
   schema_hash w2 = schema_hash w1 \<Longrightarrow> catalog_le w w2"
  by (simp add: catalog_le_def)

text \<open>The provider leaves the statics of the file alone.\<close>

lemma log_msg_frame [simp]:
  "gsettings_prefix (log_msg e w) = gsettings_prefix w"
  "schema_hash (log_msg e w) = schema_hash w"
  "installed (log_msg e w) = installed w"
  "objects (log_msg e w) = objects w"
  "user_values (log_msg e w) = user_values w"
  "handlers (log_msg e w) = handlers w"
  "qof_log (log_msg e w) = qof_log w @ [e]"
  by (simp_all add: log_msg_def)

lemma g_settings_reset_frame [simp]:
  "gsettings_prefix (g_settings_reset w p k) = gsettings_prefix w"
  "schema_hash (g_settings_reset w p k) = schema_hash w"
  "installed (g_settings_reset w p k) = installed w"
  "objects (g_settings_reset w p k) = objects w"
  "handlers (g_settings_reset w p k) = handlers w"
  "qof_log (g_settings_reset w p k) = qof_log w"
  by (simp_all add: g_settings_reset_def split: option.splits)

lemma g_settings_bind_frame [simp]:
  "gsettings_prefix (g_settings_bind w p k ob pr) = gsettings_prefix w"
  "schema_hash (g_settings_bind w p k ob pr) = schema_hash w"
  by (simp_all add: g_settings_bind_def split: option.splits)

lemma g_signal_handler_disconnect_frame [simp]:
  "gsettings_prefix (g_signal_handler_disconnect w p i) = gsettings_prefix w"
  "schema_hash (g_signal_handler_disconnect w p i) = schema_hash w"
  by (simp_all add: g_signal_handler_disconnect_def split: option.splits)

lemma g_signal_connect_frame [simp]:
  "gsettings_prefix (snd (g_signal_connect w p s f u)) = gsettings_prefix w"
  "schema_hash (snd (g_signal_connect w p s f u)) = schema_hash w"
  by (simp_all add: g_signal_connect_def split: option.splits prod.splits)

lemma g_signal_handlers_disconnect_matched_frame [simp]:
  "gsettings_prefix (snd (g_signal_handlers_disconnect_matched w p m i d c f u)) = gsettings_prefix w"
  "schema_hash (snd (g_signal_handlers_disconnect_matched w p m i d c f u)) = schema_hash w"
  "user_values (snd (g_signal_handlers_disconnect_matched w p m i d c f u)) = user_values w"
  "qof_log (snd (g_signal_handlers_disconnect_matched w p m i d c f u)) = qof_log w"
  by (simp_all add: g_signal_handlers_disconnect_matched_def Let_def split: option.splits)

lemma g_settings_set_value_frame:
  assumes "g_settings_set_value w p k v = Some (r, w')"
  shows "gsettings_prefix w' = gsettings_prefix w" "schema_hash w' = schema_hash w"
    "installed w' = installed w" "objects w' = objects w" "handlers w' = handlers w"
    "qof_log w' = qof_log w"
  using assms by (auto simp: g_settings_set_value_def split: option.splits if_splits)

lemma g_settings_set_enum_frame:
  assumes "g_settings_set_enum w p k v = Some (r, w')"
  shows "gsettings_prefix w' = gsettings_prefix w" "schema_hash w' = schema_hash w"
    "installed w' = installed w" "objects w' = objects w" "handlers w' = handlers w"
    "qof_log w' = qof_log w"
  using assms
  by (auto simp: g_settings_set_enum_def split: option.splits dest: g_settings_set_value_frame)

lemma get_schema_ptr_catalog_le:
  assumes "gnc_gsettings_get_schema_ptr w s = Some (p, w')"
  shows "catalog_le w w'"
  using assms
  by (auto simp: gnc_gsettings_get_schema_ptr_def g_settings_new_def catalog_le_def map_le_def
      split: option.splits if_splits)

lemma get_schema_ptr_hit:
  assumes "gnc_gsettings_normalize_schema_name w x = Some fn" and "schema_hash w fn = Some h"
  shows "gnc_gsettings_get_schema_ptr w x = Some (Some h, w)"
  using assms by (simp add: gnc_gsettings_get_schema_ptr_def)

lemma get_schema_ptr_cached:
  assumes "gnc_gsettings_get_schema_ptr w x = Some (Some h, w1)"
  shows "\<exists>fn. gnc_gsettings_normalize_schema_name w x = Some fn \<and> schema_hash w1 fn = Some h"
  using assms
  by (auto simp: gnc_gsettings_get_schema_ptr_def g_settings_new_def G_IS_SETTINGS_def
      split: option.splits if_splits)

lemma normalize_depends_on_prefix:
  "gsettings_prefix w' = gsettings_prefix w \<Longrightarrow>
   gnc_gsettings_normalize_schema_name w' x = gnc_gsettings_normalize_schema_name w x"
  by (simp add: gnc_gsettings_normalize_schema_name_def gnc_gsettings_get_prefix_def)

lemma get_schema_ptr_stable:
  assumes "gnc_gsettings_get_schema_ptr w x = Some (Some h, w1)" and "catalog_le w1 w2"
  shows "gnc_gsettings_get_schema_ptr w2 x = Some (Some h, w2)"
proof -
  obtain fn where fn: "gnc_gsettings_normalize_schema_name w x = Some fn"
    and hit: "schema_hash w1 fn = Some h"
    using get_schema_ptr_cached [OF assms(1)] by blast
  have "gsettings_prefix w1 = gsettings_prefix w"
    using get_schema_ptr_catalog_le [OF assms(1)] by (simp add: catalog_le_def)
  then have "gsettings_prefix w2 = gsettings_prefix w"
    using assms(2) by (simp add: catalog_le_def)
  then have "gnc_gsettings_normalize_schema_name w2 x = Some fn"
    using fn normalize_depends_on_prefix [of w2 w x] by simp
  moreover have "schema_hash w2 fn = Some h"
  proof -
    have "schema_hash w1 \<subseteq>\<^sub>m schema_hash w2"
      using assms(2) by (simp add: catalog_le_def)
    moreover have "fn \<in> dom (schema_hash w1)"
      using hit by (simp add: domI)
    ultimately have "schema_hash w1 fn = schema_hash w2 fn"
      by (simp add: map_le_def)
    then show ?thesis
      using hit by simp
  qed
  ultimately show ?thesis
    by (rule get_schema_ptr_hit)
qed

text \<open>Every call of the program lets the catalog grow only.\<close>

lemma g_settings_set_typed_frame:
  "g_settings_set_boolean w p k b = Some (r, w') \<Longrightarrow>
     gsettings_prefix w' = gsettings_prefix w \<and> schema_hash w' = schema_hash w"
  "g_settings_set_int w p k i = Some (r, w') \<Longrightarrow>
     gsettings_prefix w' = gsettings_prefix w \<and> schema_hash w' = schema_hash w"
  "g_settings_set_double w p k d = Some (r, w') \<Longrightarrow>
     gsettings_prefix w' = gsettings_prefix w \<and> schema_hash w' = schema_hash w"
  "g_settings_set_string w p k s = Some (r, w') \<Longrightarrow>
     gsettings_prefix w' = gsettings_prefix w \<and> schema_hash w' = schema_hash w"
  "g_settings_set_enum w p k i = Some (r, w') \<Longrightarrow>
     gsettings_prefix w' = gsettings_prefix w \<and> schema_hash w' = schema_hash w"
  "g_settings_set_value w p k v = Some (r, w') \<Longrightarrow>
     gsettings_prefix w' = gsettings_prefix w \<and> schema_hash w' = schema_hash w"
  by (simp_all add: g_settings_set_boolean_def g_settings_set_int_def g_settings_set_double_def
      g_settings_set_string_def g_settings_set_value_frame g_settings_set_enum_frame)

lemma get_bool_catalog_le:
  assumes "gnc_gsettings_get_bool w s k = Some (v, w')"
  shows "catalog_le w w'"
  using assms
  by (auto simp: gnc_gsettings_get_bool_def
      split: option.splits if_splits prod.splits
      dest!: get_schema_ptr_catalog_le elim: catalog_le_step)

lemma set_bool_catalog_le:
  assumes "gnc_gsettings_set_bool w s k x = Some (r, w')"
  shows "catalog_le w w'"
  using assms
  by (auto simp: gnc_gsettings_set_bool_def
      split: option.splits if_splits prod.splits
      dest!: get_schema_ptr_catalog_le g_settings_set_typed_frame elim: catalog_le_step)

lemma get_int_catalog_le:
  assumes "gnc_gsettings_get_int w s k = Some (v, w')"
  shows "catalog_le w w'"
  using assms
  by (auto simp: gnc_gsettings_get_int_def
      split: option.splits if_splits prod.splits
      dest!: get_schema_ptr_catalog_le elim: catalog_le_step)

lemma set_int_catalog_le:
  assumes "gnc_gsettings_set_int w s k x = Some (r, w')"
  shows "catalog_le w w'"
  using assms
  by (auto simp: gnc_gsettings_set_int_def
      split: option.splits if_splits prod.splits
      dest!: get_schema_ptr_catalog_le g_settings_set_typed_frame elim: catalog_le_step)

lemma get_float_catalog_le:
  assumes "gnc_gsettings_get_float w s k = Some (v, w')"
  shows "catalog_le w w'"
  using assms
  by (auto simp: gnc_gsettings_get_float_def
      split: option.splits if_splits prod.splits
      dest!: get_schema_ptr_catalog_le elim: catalog_le_step)

lemma set_float_catalog_le:
  assumes "gnc_gsettings_set_float w s k x = Some (r, w')"
  shows "catalog_le w w'"
  using assms
  by (auto simp: gnc_gsettings_set_float_def
      split: option.splits if_splits prod.splits
      dest!: get_schema_ptr_catalog_le g_settings_set_typed_frame elim: catalog_le_step)

lemma get_string_catalog_le:
  assumes "gnc_gsettings_get_string w s k = Some (v, w')"
  shows "catalog_le w w'"
  using assms
  by (auto simp: gnc_gsettings_get_string_def
      split: option.splits if_splits prod.splits
      dest!: get_schema_ptr_catalog_le elim: catalog_le_step)

lemma set_string_catalog_le:
  assumes "gnc_gsettings_set_string w s k x = Some (r, w')"
  shows "catalog_le w w'"
  using assms
  by (auto simp: gnc_gsettings_set_string_def
      split: option.splits if_splits prod.splits
      dest!: get_schema_ptr_catalog_le g_settings_set_typed_frame elim: catalog_le_step)

lemma get_enum_catalog_le:
  assumes "gnc_gsettings_get_enum w s k = Some (v, w')"
  shows "catalog_le w w'"
  using assms
  by (auto simp: gnc_gsettings_get_enum_def
      split: option.splits if_splits prod.splits
      dest!: get_schema_ptr_catalog_le elim: catalog_le_step)

lemma set_enum_catalog_le:
  assumes "gnc_gsettings_set_enum w s k x = Some (r, w')"
  shows "catalog_le w w'"
  using assms
  by (auto simp: gnc_gsettings_set_enum_def
      split: option.splits if_splits prod.splits
      dest!: get_schema_ptr_catalog_le g_settings_set_typed_frame elim: catalog_le_step)

lemma get_value_catalog_le:
  assumes "gnc_gsettings_get_value w s k = Some (v, w')"
  shows "catalog_le w w'"
  using assms
  by (auto simp: gnc_gsettings_get_value_def
      split: option.splits if_splits prod.splits
      dest!: get_schema_ptr_catalog_le elim: catalog_le_step)

lemma set_value_catalog_le:
  assumes "gnc_gsettings_set_value w s k x = Some (r, w')"
  shows "catalog_le w w'"
  using assms
  by (auto simp: gnc_gsettings_set_value_def
      split: option.splits if_splits prod.splits
      dest!: get_schema_ptr_catalog_le g_settings_set_typed_frame elim: catalog_le_step)

lemma g_signal_connect_eq_frame:
  assumes "g_signal_connect w p sg f u = (r, w')"
  shows "gsettings_prefix w' = gsettings_prefix w \<and> schema_hash w' = schema_hash w"
  using g_signal_connect_frame [of w p sg f u] assms by simp

lemma g_signal_handlers_disconnect_matched_eq_frame:
  assumes "g_signal_handlers_disconnect_matched w p m i d c f u = (r, w')"
  shows "gsettings_prefix w' = gsettings_prefix w \<and> schema_hash w' = schema_hash w"
  using g_signal_handlers_disconnect_matched_frame [of w p m i d c f u] assms by simp

lemma register_cb_catalog_le:
  assumes "gnc_gsettings_register_cb w s k f u = Some (r, w')"
  shows "catalog_le w w'"
  using assms
  by (auto simp: gnc_gsettings_register_cb_def
      split: option.splits if_splits prod.splits
      dest!: get_schema_ptr_catalog_le g_signal_connect_eq_frame elim: catalog_le_step)

lemma remove_cb_by_func_catalog_le:
  assumes "gnc_gsettings_remove_cb_by_func w s k f u = Some w'"
  shows "catalog_le w w'"
  using assms
  by (auto simp: gnc_gsettings_remove_cb_by_func_def
      split: option.splits if_splits prod.splits
      dest!: get_schema_ptr_catalog_le g_signal_handlers_disconnect_matched_eq_frame
      elim: catalog_le_step)

lemma remove_cb_by_id_catalog_le:
  assumes "gnc_gsettings_remove_cb_by_id w s i = Some w'"
  shows "catalog_le w w'"
  using assms
  by (auto simp: gnc_gsettings_remove_cb_by_id_def
      split: option.splits if_splits prod.splits
      dest!: get_schema_ptr_catalog_le elim: catalog_le_step)

lemma bind_catalog_le:
  assumes "gnc_gsettings_bind w s k ob pr = Some w'"
  shows "catalog_le w w'"
  using assms
  by (auto simp: gnc_gsettings_bind_def
      split: option.splits if_splits prod.splits
      dest!: get_schema_ptr_catalog_le elim: catalog_le_step)

lemma reset_catalog_le:
  assumes "gnc_gsettings_reset w s k = Some w'"
  shows "catalog_le w w'"
  using assms
  by (auto simp: gnc_gsettings_reset_def
      split: option.splits if_splits prod.splits
      dest!: get_schema_ptr_catalog_le elim: catalog_le_step)

lemma reset_loop_catalog_le:
  "reset_loop w s ks = Some w' \<Longrightarrow> catalog_le w w'"
proof (induction ks arbitrary: w)
  case Nil
  then show ?case by (simp add: catalog_le_refl)
next
  case (Cons k ks)
  then obtain w1 where step: "gnc_gsettings_reset w s (Some k) = Some w1"
    and rest: "reset_loop w1 s ks = Some w'"
    by (auto split: option.splits)
  show ?case
    using reset_catalog_le [OF step] Cons.IH [OF rest] by (rule catalog_le_trans)
qed

lemma reset_schema_catalog_le:
  assumes "gnc_gsettings_reset_schema w s = Some w'"
  shows "catalog_le w w'"
  using assms
  by (auto simp: gnc_gsettings_reset_schema_def catalog_le_refl
      split: option.splits
      dest!: get_schema_ptr_catalog_le reset_loop_catalog_le intro: catalog_le_trans)

lemma run_call_catalog_le:
  assumes "run_call w c = Some w'"
  shows "catalog_le w w'"
proof (cases c)
  case (Get_schema_ptr s)
  then show ?thesis using assms by (auto dest: get_schema_ptr_catalog_le)
next
  case (Register_cb s k f u)
  then show ?thesis using assms by (auto dest: register_cb_catalog_le)
next
  case (Remove_cb_by_func s k f u)
  then show ?thesis using assms by (auto dest: remove_cb_by_func_catalog_le)
next
  case (Remove_cb_by_id s i)
  then show ?thesis using assms by (auto dest: remove_cb_by_id_catalog_le)
next
  case (Register_any_cb s f u)
  then show ?thesis
    using assms by (auto simp: gnc_gsettings_register_any_cb_def dest: register_cb_catalog_le)
next
  case (Remove_any_cb_by_func s f u)
  then show ?thesis
    using assms
    by (auto simp: gnc_gsettings_remove_any_cb_by_func_def dest: remove_cb_by_func_catalog_le)
next
  case (Bind s k ob pr)
  then show ?thesis using assms by (auto dest: bind_catalog_le)
next
  case (Get_bool s k)
  then show ?thesis using assms by (auto dest: get_bool_catalog_le)
next
  case (Get_int s k)
  then show ?thesis using assms by (auto dest: get_int_catalog_le)
next
  case (Get_float s k)
  then show ?thesis using assms by (auto dest: get_float_catalog_le)
next
  case (Get_string s k)
  then show ?thesis using assms by (auto dest: get_string_catalog_le)
next
  case (Get_enum s k)
  then show ?thesis using assms by (auto dest: get_enum_catalog_le)
next
  case (Get_value s k)
  then show ?thesis using assms by (auto dest: get_value_catalog_le)
next
  case (Set_bool s k v)
  then show ?thesis using assms by (auto dest: set_bool_catalog_le)
next
  case (Set_int s k v)
  then show ?thesis using assms by (auto dest: set_int_catalog_le)
next
  case (Set_float s k v)
  then show ?thesis using assms by (auto dest: set_float_catalog_le)
next
  case (Set_string s k v)
  then show ?thesis using assms by (auto dest: set_string_catalog_le)
next
  case (Set_enum s k v)
  then show ?thesis using assms by (auto dest: set_enum_catalog_le)
next
  case (Set_value s k v)
  then show ?thesis using assms by (auto dest: set_value_catalog_le)
next
  case (Reset s k)
  then show ?thesis using assms by (auto dest: reset_catalog_le)
next
  case (Reset_schema s)
  then show ?thesis using assms by (auto dest: reset_schema_catalog_le)
qed

lemma run_calls_catalog_le:
  "run_calls w cs = Some w' \<Longrightarrow> catalog_le w w'"
proof (induction cs arbitrary: w)
  case Nil
  then show ?case by (simp add: catalog_le_refl)
next
  case (Cons c cs)
  then obtain w1 where step: "run_call w c = Some w1" and rest: "run_calls w1 cs = Some w'"
    by (auto split: option.splits)
  show ?case
    using run_call_catalog_le [OF step] Cons.IH [OF rest] by (rule catalog_le_trans)
qed

text \<open>A miss on a schema that is not installed ends the process inside
  \<^verbatim>\<open>g_settings_new\<close>: the lookup does not return, and the branch of the source that
  warns and leaves the catalog alone is not reached.\<close>

lemma get_schema_ptr_not_installed:
  assumes "gnc_gsettings_normalize_schema_name w x = Some fn"
    and "schema_hash w fn = None"
    and "installed w fn = None"
  shows "gnc_gsettings_get_schema_ptr w x = None"
  using assms by (simp add: gnc_gsettings_get_schema_ptr_def g_settings_new_def)

text \<open>A miss on an installed schema returns a valid object.\<close>

lemma get_schema_ptr_miss_valid:
  assumes "gnc_gsettings_normalize_schema_name w x = Some fn"
    and "schema_hash w fn = None"
    and "gnc_gsettings_get_schema_ptr w x = Some (p, w1)"
  shows "G_IS_SETTINGS w1 p \<and> p = Some (next_object w) \<and> schema_hash w1 fn = p"
  using assms
  by (auto simp: gnc_gsettings_get_schema_ptr_def g_settings_new_def G_IS_SETTINGS_def
      split: option.splits if_splits)

text \<open>Once a lookup of the name \<open>x\<close> has returned a schema object, every later lookup
  of \<open>x\<close>, after any run of calls of the program, returns the same object and leaves
  the world as it is.\<close>

lemma schema_ptr_identity:
  assumes "gnc_gsettings_get_schema_ptr w x = Some (Some h, w1)"
    and "run_calls w1 cs = Some w2"
  shows "gnc_gsettings_get_schema_ptr w2 x = Some (Some h, w2)"
  using assms by (blast intro: get_schema_ptr_stable run_calls_catalog_le)

lemmas eval_defs =
  gnc_gsettings_get_schema_ptr_def gnc_gsettings_normalize_schema_name_def
  gnc_gsettings_get_prefix_def g_str_has_prefix_def g_strjoin_def g_strdup_def
  g_settings_new_def G_IS_SETTINGS_def gnc_gsettings_is_valid_key_def g_settings_list_keys_def
  schema_decls_def g_strcmp0_def log_msg_def


subsection \<open>Key validation\<close>

lemma keys_loop_iff: "keys_loop key ks \<longleftrightarrow> key \<in> Some ` set ks"
  by (induction ks) (auto simp: g_strcmp0_def split: option.splits)

lemma is_valid_key_eq:
  assumes "G_IS_SETTINGS w schema_ptr"
  shows "gnc_gsettings_is_valid_key w schema_ptr key =
           Some (\<exists>h. schema_ptr = Some h \<and> key \<in> Some ` fst ` set (schema_decls w h))"
  using assms
  by (auto simp: gnc_gsettings_is_valid_key_def G_IS_SETTINGS_def g_settings_list_keys_def
      keys_loop_iff image_image split: option.splits)

lemma valid_key_declared:
  assumes "G_IS_SETTINGS w schema_ptr"
    and "gnc_gsettings_is_valid_key w schema_ptr key = Some True"
  shows "\<exists>h sid k d. schema_ptr = Some h \<and> objects w h = Some sid \<and> key = Some k \<and>
           map_of (schema_decls w h) k = Some d"
proof -
  obtain h where h: "schema_ptr = Some h" and mem: "key \<in> Some ` fst ` set (schema_decls w h)"
    using assms by (auto simp: is_valid_key_eq)
  obtain k where k: "key = Some k" and "k \<in> fst ` set (schema_decls w h)"
    using mem by auto
  then obtain d where "map_of (schema_decls w h) k = Some d"
    by (metis map_of_eq_None_iff not_None_eq)
  moreover obtain sid where "objects w h = Some sid"
    using assms(1) h by (auto simp: G_IS_SETTINGS_def)
  ultimately show ?thesis
    using h k by blast
qed

lemma get_schema_ptr_frame:
  assumes "gnc_gsettings_get_schema_ptr w schema = Some (schema_ptr, w1)"
  shows "user_values w1 = user_values w" "installed w1 = installed w" "handlers w1 = handlers w"
    "bindings w1 = bindings w"
  using assms
  by (auto simp: gnc_gsettings_get_schema_ptr_def g_settings_new_def log_msg_def
      split: option.splits if_splits)

subsection \<open>Typed getters\<close>

lemma get_bool_cases:
  assumes "gnc_gsettings_get_schema_ptr w schema = Some (schema_ptr, w1)"
  shows "\<not> G_IS_SETTINGS w1 schema_ptr \<Longrightarrow>
           gnc_gsettings_get_bool w schema key =
             Some (False, log_msg (Critical ''G_IS_SETTINGS (schema_ptr)'') w1)"
    and "G_IS_SETTINGS w1 schema_ptr \<Longrightarrow>
         gnc_gsettings_is_valid_key w1 schema_ptr key = Some False \<Longrightarrow>
           gnc_gsettings_get_bool w schema key =
             Some (False, log_msg (Perr_invalid_key key schema) w1)"
    and "G_IS_SETTINGS w1 schema_ptr \<Longrightarrow>
         gnc_gsettings_is_valid_key w1 schema_ptr key = Some True \<Longrightarrow>
           gnc_gsettings_get_bool w schema key =
             map_option (\<lambda>v. (v, w1)) (g_settings_get_boolean w1 schema_ptr key)"
  using assms by (simp_all add: gnc_gsettings_get_bool_def split: option.splits)

lemma get_int_cases:
  assumes "gnc_gsettings_get_schema_ptr w schema = Some (schema_ptr, w1)"
  shows "\<not> G_IS_SETTINGS w1 schema_ptr \<Longrightarrow>
           gnc_gsettings_get_int w schema key =
             Some (0, log_msg (Critical ''G_IS_SETTINGS (schema_ptr)'') w1)"
    and "G_IS_SETTINGS w1 schema_ptr \<Longrightarrow>
         gnc_gsettings_is_valid_key w1 schema_ptr key = Some False \<Longrightarrow>
           gnc_gsettings_get_int w schema key =
             Some (0, log_msg (Perr_invalid_key key schema) w1)"
    and "G_IS_SETTINGS w1 schema_ptr \<Longrightarrow>
         gnc_gsettings_is_valid_key w1 schema_ptr key = Some True \<Longrightarrow>
           gnc_gsettings_get_int w schema key =
             map_option (\<lambda>v. (v, w1)) (g_settings_get_int w1 schema_ptr key)"
  using assms by (simp_all add: gnc_gsettings_get_int_def split: option.splits)

lemma get_float_cases:
  assumes "gnc_gsettings_get_schema_ptr w schema = Some (schema_ptr, w1)"
  shows "\<not> G_IS_SETTINGS w1 schema_ptr \<Longrightarrow>
           gnc_gsettings_get_float w schema key =
             Some (0, log_msg (Critical ''G_IS_SETTINGS (schema_ptr)'') w1)"
    and "G_IS_SETTINGS w1 schema_ptr \<Longrightarrow>
         gnc_gsettings_is_valid_key w1 schema_ptr key = Some False \<Longrightarrow>
           gnc_gsettings_get_float w schema key =
             Some (0, log_msg (Perr_invalid_key key schema) w1)"
    and "G_IS_SETTINGS w1 schema_ptr \<Longrightarrow>
         gnc_gsettings_is_valid_key w1 schema_ptr key = Some True \<Longrightarrow>
           gnc_gsettings_get_float w schema key =
             map_option (\<lambda>v. (v, w1)) (g_settings_get_double w1 schema_ptr key)"
  using assms by (simp_all add: gnc_gsettings_get_float_def split: option.splits)

lemma get_string_cases:
  assumes "gnc_gsettings_get_schema_ptr w schema = Some (schema_ptr, w1)"
  shows "\<not> G_IS_SETTINGS w1 schema_ptr \<Longrightarrow>
           gnc_gsettings_get_string w schema key =
             Some (None, log_msg (Critical ''G_IS_SETTINGS (schema_ptr)'') w1)"
    and "G_IS_SETTINGS w1 schema_ptr \<Longrightarrow>
         gnc_gsettings_is_valid_key w1 schema_ptr key = Some False \<Longrightarrow>
           gnc_gsettings_get_string w schema key =
             Some (None, log_msg (Perr_invalid_key key schema) w1)"
    and "G_IS_SETTINGS w1 schema_ptr \<Longrightarrow>
         gnc_gsettings_is_valid_key w1 schema_ptr key = Some True \<Longrightarrow>
           gnc_gsettings_get_string w schema key =
             map_option (\<lambda>v. (v, w1)) (g_settings_get_string w1 schema_ptr key)"
  using assms by (simp_all add: gnc_gsettings_get_string_def split: option.splits)

lemma get_enum_cases:
  assumes "gnc_gsettings_get_schema_ptr w schema = Some (schema_ptr, w1)"
  shows "\<not> G_IS_SETTINGS w1 schema_ptr \<Longrightarrow>
           gnc_gsettings_get_enum w schema key =
             Some (0, log_msg (Critical ''G_IS_SETTINGS (schema_ptr)'') w1)"
    and "G_IS_SETTINGS w1 schema_ptr \<Longrightarrow>
         gnc_gsettings_is_valid_key w1 schema_ptr key = Some False \<Longrightarrow>
           gnc_gsettings_get_enum w schema key =
             Some (0, log_msg (Perr_invalid_key key schema) w1)"
    and "G_IS_SETTINGS w1 schema_ptr \<Longrightarrow>
         gnc_gsettings_is_valid_key w1 schema_ptr key = Some True \<Longrightarrow>
           gnc_gsettings_get_enum w schema key =
             map_option (\<lambda>v. (v, w1)) (g_settings_get_enum w1 schema_ptr key)"
  using assms by (simp_all add: gnc_gsettings_get_enum_def split: option.splits)

lemma get_value_cases:
  assumes "gnc_gsettings_get_schema_ptr w schema = Some (schema_ptr, w1)"
  shows "\<not> G_IS_SETTINGS w1 schema_ptr \<Longrightarrow>
           gnc_gsettings_get_value w schema key =
             Some (None, log_msg (Critical ''G_IS_SETTINGS (schema_ptr)'') w1)"
    and "G_IS_SETTINGS w1 schema_ptr \<Longrightarrow>
         gnc_gsettings_is_valid_key w1 schema_ptr key = Some False \<Longrightarrow>
           gnc_gsettings_get_value w schema key =
             Some (None, log_msg (Perr_invalid_key key schema) w1)"
    and "G_IS_SETTINGS w1 schema_ptr \<Longrightarrow>
         gnc_gsettings_is_valid_key w1 schema_ptr key = Some True \<Longrightarrow>
           gnc_gsettings_get_value w schema key =
             map_option (\<lambda>v. (v, w1)) (g_settings_get_value w1 schema_ptr key)"
  using assms by (simp_all add: gnc_gsettings_get_value_def split: option.splits)

text \<open>Where the lookup does not return, no getter does.\<close>

lemma getters_fault_with_lookup:
  assumes "gnc_gsettings_get_schema_ptr w schema = None"
  shows "gnc_gsettings_get_bool w schema key = None \<and>
         gnc_gsettings_get_int w schema key = None \<and>
         gnc_gsettings_get_float w schema key = None \<and>
         gnc_gsettings_get_string w schema key = None \<and>
         gnc_gsettings_get_enum w schema key = None \<and>
         gnc_gsettings_get_value w schema key = None"
  using assms
  by (simp add: gnc_gsettings_get_bool_def gnc_gsettings_get_int_def gnc_gsettings_get_float_def gnc_gsettings_get_string_def gnc_gsettings_get_enum_def gnc_gsettings_get_value_def)

text \<open>
  Claim C4, at an input where the code and the claim part. The claim has a getter
  return the zero of its type and report an error when the schema cannot be resolved.
  In the example world the schema \<^verbatim>\<open>org.ex.app.nosuch\<close> is not installed: the lookup
  inside each of the six getters ends the process in \<^verbatim>\<open>g_settings_new\<close>, before the
  \<^verbatim>\<open>G_IS_SETTINGS\<close> test that would return the zero, and no getter returns. (For a
  schema that resolves, the lemmas \<open>get_bool_cases\<close> to \<open>get_value_cases\<close> above give
  the zero and the logged error on an undeclared key and the provider's result on a
  declared one.)
\<close>

theorem getters_on_unknown_schema_end_process:
  "installed example_world ''org.ex.app.nosuch'' = None \<and>
   gnc_gsettings_get_schema_ptr example_world (Some ''nosuch'') = None \<and>
   gnc_gsettings_get_bool example_world (Some ''nosuch'') (Some ''window.width'') = None \<and>
   gnc_gsettings_get_int example_world (Some ''nosuch'') (Some ''window.width'') = None \<and>
   gnc_gsettings_get_float example_world (Some ''nosuch'') (Some ''window.width'') = None \<and>
   gnc_gsettings_get_string example_world (Some ''nosuch'') (Some ''window.width'') = None \<and>
   gnc_gsettings_get_enum example_world (Some ''nosuch'') (Some ''window.width'') = None \<and>
   gnc_gsettings_get_value example_world (Some ''nosuch'') (Some ''window.width'') = None"
proof -
  have "gnc_gsettings_get_schema_ptr example_world (Some ''nosuch'') = None"
    by (simp add: eval_defs example_world_def)
  then show ?thesis
    using getters_fault_with_lookup [of example_world "Some ''nosuch''" "Some ''window.width''"]
    by (simp add: example_world_def)
qed

subsection \<open>Typed setters\<close>

text \<open>A write the provider refuses leaves the world as it was.\<close>

lemma g_settings_set_value_refused:
  assumes "g_settings_set_value w p k v = Some (False, w2)"
  shows "w2 = w"
  using assms by (auto simp: g_settings_set_value_def split: option.splits if_splits)

lemma g_settings_set_value_valid:
  assumes "G_IS_SETTINGS w schema_ptr"
    and "gnc_gsettings_is_valid_key w schema_ptr key = Some True"
  shows "\<exists>r w2. g_settings_set_value w schema_ptr key v = Some (r, w2) \<and> (\<not> r \<longrightarrow> w2 = w)"
proof -
  obtain h sid k d where "schema_ptr = Some h" "objects w h = Some sid" "key = Some k"
    "map_of (schema_decls w h) k = Some d"
    using valid_key_declared [OF assms] by blast
  then show ?thesis
    by (auto simp: g_settings_set_value_def split: option.splits)
qed

lemma g_settings_set_enum_valid:
  assumes "G_IS_SETTINGS w schema_ptr"
    and "gnc_gsettings_is_valid_key w schema_ptr key = Some True"
  shows "\<exists>r w2. g_settings_set_enum w schema_ptr key v = Some (r, w2) \<and> (\<not> r \<longrightarrow> w2 = w)"
proof -
  obtain h sid k d where "schema_ptr = Some h" "objects w h = Some sid" "key = Some k"
    "map_of (schema_decls w h) k = Some d"
    using valid_key_declared [OF assms] by blast
  then have "enum_decl w schema_ptr key = Some (key_enum d)"
    by (simp add: enum_decl_def)
  then show ?thesis
    using g_settings_set_value_valid [OF assms]
    by (auto simp: g_settings_set_enum_def split: option.splits)
qed

lemma g_settings_set_typed_valid:
  assumes "G_IS_SETTINGS w schema_ptr"
    and "gnc_gsettings_is_valid_key w schema_ptr key = Some True"
  shows "\<exists>r w2. g_settings_set_boolean w schema_ptr key vb = Some (r, w2) \<and> (\<not> r \<longrightarrow> w2 = w)"
    and "\<exists>r w2. g_settings_set_int w schema_ptr key vi = Some (r, w2) \<and> (\<not> r \<longrightarrow> w2 = w)"
    and "\<exists>r w2. g_settings_set_double w schema_ptr key vf = Some (r, w2) \<and> (\<not> r \<longrightarrow> w2 = w)"
    and "\<exists>r w2. g_settings_set_string w schema_ptr key vs = Some (r, w2) \<and> (\<not> r \<longrightarrow> w2 = w)"
  using g_settings_set_value_valid [OF assms]
  by (simp_all add: g_settings_set_boolean_def g_settings_set_int_def g_settings_set_double_def
      g_settings_set_string_def)

lemma set_bool_cases:
  assumes "gnc_gsettings_get_schema_ptr w schema = Some (schema_ptr, w1)"
  shows "\<not> G_IS_SETTINGS w1 schema_ptr \<Longrightarrow>
           gnc_gsettings_set_bool w schema key v =
             Some (False, log_msg (Critical ''G_IS_SETTINGS (schema_ptr)'') w1)"
    and "G_IS_SETTINGS w1 schema_ptr \<Longrightarrow>
         gnc_gsettings_is_valid_key w1 schema_ptr key = Some False \<Longrightarrow>
           gnc_gsettings_set_bool w schema key v =
             Some (False, log_msg (Perr_invalid_key key schema) w1)"
    and "G_IS_SETTINGS w1 schema_ptr \<Longrightarrow>
         gnc_gsettings_is_valid_key w1 schema_ptr key = Some True \<Longrightarrow>
         g_settings_set_boolean w1 schema_ptr key v = Some (r, w2) \<Longrightarrow>
           gnc_gsettings_set_bool w schema key v =
             Some (r, if r then w2 else log_msg (Perr_unable_to_set key schema) w2)"
  using assms by (simp_all add: gnc_gsettings_set_bool_def split: option.splits)

lemma set_int_cases:
  assumes "gnc_gsettings_get_schema_ptr w schema = Some (schema_ptr, w1)"
  shows "\<not> G_IS_SETTINGS w1 schema_ptr \<Longrightarrow>
           gnc_gsettings_set_int w schema key v =
             Some (False, log_msg (Critical ''G_IS_SETTINGS (schema_ptr)'') w1)"
    and "G_IS_SETTINGS w1 schema_ptr \<Longrightarrow>
         gnc_gsettings_is_valid_key w1 schema_ptr key = Some False \<Longrightarrow>
           gnc_gsettings_set_int w schema key v =
             Some (False, log_msg (Perr_invalid_key key schema) w1)"
    and "G_IS_SETTINGS w1 schema_ptr \<Longrightarrow>
         gnc_gsettings_is_valid_key w1 schema_ptr key = Some True \<Longrightarrow>
         g_settings_set_int w1 schema_ptr key v = Some (r, w2) \<Longrightarrow>
           gnc_gsettings_set_int w schema key v =
             Some (r, if r then w2 else log_msg (Perr_unable_to_set key schema) w2)"
  using assms by (simp_all add: gnc_gsettings_set_int_def split: option.splits)

lemma set_float_cases:
  assumes "gnc_gsettings_get_schema_ptr w schema = Some (schema_ptr, w1)"
  shows "\<not> G_IS_SETTINGS w1 schema_ptr \<Longrightarrow>
           gnc_gsettings_set_float w schema key v =
             Some (False, log_msg (Critical ''G_IS_SETTINGS (schema_ptr)'') w1)"
    and "G_IS_SETTINGS w1 schema_ptr \<Longrightarrow>
         gnc_gsettings_is_valid_key w1 schema_ptr key = Some False \<Longrightarrow>
           gnc_gsettings_set_float w schema key v =
             Some (False, log_msg (Perr_invalid_key key schema) w1)"
    and "G_IS_SETTINGS w1 schema_ptr \<Longrightarrow>
         gnc_gsettings_is_valid_key w1 schema_ptr key = Some True \<Longrightarrow>
         g_settings_set_double w1 schema_ptr key v = Some (r, w2) \<Longrightarrow>
           gnc_gsettings_set_float w schema key v =
             Some (r, if r then w2 else log_msg (Perr_unable_to_set key schema) w2)"
  using assms by (simp_all add: gnc_gsettings_set_float_def split: option.splits)

lemma set_string_cases:
  assumes "gnc_gsettings_get_schema_ptr w schema = Some (schema_ptr, w1)"
  shows "\<not> G_IS_SETTINGS w1 schema_ptr \<Longrightarrow>
           gnc_gsettings_set_string w schema key v =
             Some (False, log_msg (Critical ''G_IS_SETTINGS (schema_ptr)'') w1)"
    and "G_IS_SETTINGS w1 schema_ptr \<Longrightarrow>
         gnc_gsettings_is_valid_key w1 schema_ptr key = Some False \<Longrightarrow>
           gnc_gsettings_set_string w schema key v =
             Some (False, log_msg (Perr_invalid_key key schema) w1)"
    and "G_IS_SETTINGS w1 schema_ptr \<Longrightarrow>
         gnc_gsettings_is_valid_key w1 schema_ptr key = Some True \<Longrightarrow>
         g_settings_set_string w1 schema_ptr key v = Some (r, w2) \<Longrightarrow>
           gnc_gsettings_set_string w schema key v =
             Some (r, if r then w2 else log_msg (Perr_unable_to_set key schema) w2)"
  using assms by (simp_all add: gnc_gsettings_set_string_def split: option.splits)

lemma set_enum_cases:
  assumes "gnc_gsettings_get_schema_ptr w schema = Some (schema_ptr, w1)"
  shows "\<not> G_IS_SETTINGS w1 schema_ptr \<Longrightarrow>
           gnc_gsettings_set_enum w schema key v =
             Some (False, log_msg (Critical ''G_IS_SETTINGS (schema_ptr)'') w1)"
    and "G_IS_SETTINGS w1 schema_ptr \<Longrightarrow>
         gnc_gsettings_is_valid_key w1 schema_ptr key = Some False \<Longrightarrow>
           gnc_gsettings_set_enum w schema key v =
             Some (False, log_msg (Perr_invalid_key key schema) w1)"
    and "G_IS_SETTINGS w1 schema_ptr \<Longrightarrow>
         gnc_gsettings_is_valid_key w1 schema_ptr key = Some True \<Longrightarrow>
         g_settings_set_enum w1 schema_ptr key v = Some (r, w2) \<Longrightarrow>
           gnc_gsettings_set_enum w schema key v =
             Some (r, if r then w2 else log_msg (Perr_unable_to_set key schema) w2)"
  using assms by (simp_all add: gnc_gsettings_set_enum_def split: option.splits)

lemma set_value_cases:
  assumes "gnc_gsettings_get_schema_ptr w schema = Some (schema_ptr, w1)"
  shows "\<not> G_IS_SETTINGS w1 schema_ptr \<Longrightarrow>
           gnc_gsettings_set_value w schema key v =
             Some (False, log_msg (Critical ''G_IS_SETTINGS (schema_ptr)'') w1)"
    and "G_IS_SETTINGS w1 schema_ptr \<Longrightarrow>
         gnc_gsettings_is_valid_key w1 schema_ptr key = Some False \<Longrightarrow>
           gnc_gsettings_set_value w schema key v =
             Some (False, log_msg (Perr_invalid_key key schema) w1)"
    and "G_IS_SETTINGS w1 schema_ptr \<Longrightarrow>
         gnc_gsettings_is_valid_key w1 schema_ptr key = Some True \<Longrightarrow>
         g_settings_set_value w1 schema_ptr key v = Some (r, w2) \<Longrightarrow>
           gnc_gsettings_set_value w schema key v =
             Some (r, if r then w2 else log_msg (Perr_unable_to_set key schema) w2)"
  using assms by (simp_all add: gnc_gsettings_set_value_def split: option.splits)

text \<open>Where the lookup does not return, no setter does.\<close>

lemma setters_fault_with_lookup:
  assumes "gnc_gsettings_get_schema_ptr w schema = None"
  shows "gnc_gsettings_set_bool w schema key vbo = None \<and>
         gnc_gsettings_set_int w schema key vin = None \<and>
         gnc_gsettings_set_float w schema key vfl = None \<and>
         gnc_gsettings_set_string w schema key vst = None \<and>
         gnc_gsettings_set_enum w schema key ven = None \<and>
         gnc_gsettings_set_value w schema key vva = None"
  using assms
  by (simp add: gnc_gsettings_set_bool_def gnc_gsettings_set_int_def gnc_gsettings_set_float_def gnc_gsettings_set_string_def gnc_gsettings_set_enum_def gnc_gsettings_set_value_def)

text \<open>
  Claim C5, at an input where the code and the claim part. The claim has a setter
  return false and log an error when the schema cannot be resolved. In the example
  world the schema \<^verbatim>\<open>org.ex.app.nosuch\<close> is not installed: the lookup inside each of
  the six setters ends the process in \<^verbatim>\<open>g_settings_new\<close>, before the
  \<^verbatim>\<open>G_IS_SETTINGS\<close> test that would return false, and no setter returns. (For a
  schema that resolves, the lemmas \<open>set_bool_cases\<close> to \<open>set_value_cases\<close> above give
  false and the logged error on an undeclared key, and the provider's flag, with the
  refusal logged, on a declared one.)
\<close>

theorem setters_on_unknown_schema_end_process:
  "installed example_world ''org.ex.app.nosuch'' = None \<and>
   gnc_gsettings_get_schema_ptr example_world (Some ''nosuch'') = None \<and>
   gnc_gsettings_set_bool example_world (Some ''nosuch'') (Some ''window.width'') True = None \<and>
   gnc_gsettings_set_int example_world (Some ''nosuch'') (Some ''window.width'') 100 = None \<and>
   gnc_gsettings_set_float example_world (Some ''nosuch'') (Some ''window.width'') 0 = None \<and>
   gnc_gsettings_set_string example_world (Some ''nosuch'') (Some ''window.width'') (Some ''x'') = None \<and>
   gnc_gsettings_set_enum example_world (Some ''nosuch'') (Some ''window.width'') 1 = None \<and>
   gnc_gsettings_set_value example_world (Some ''nosuch'') (Some ''window.width'') (Some (VInt32 100)) = None"
proof -
  have "gnc_gsettings_get_schema_ptr example_world (Some ''nosuch'') = None"
    by (simp add: eval_defs example_world_def)
  then show ?thesis
    using setters_fault_with_lookup [of example_world "Some ''nosuch''" "Some ''window.width''"
        True 100 0 "Some ''x''" 1 "Some (VInt32 100)"]
    by (simp add: example_world_def)
qed

subsection \<open>Reset\<close>

text \<open>Where the schema is in the catalog and the key is declared, a reset is the
  provider's reset of that key.\<close>

lemma reset_declared:
  assumes "gnc_gsettings_normalize_schema_name w schema = Some fn"
    and "schema_hash w fn = Some h"
    and "objects w h = Some sid"
    and "k \<in> fst ` set (schema_decls w h)"
  shows "gnc_gsettings_reset w schema (Some k) = Some (g_settings_reset w (Some h) (Some k))"
proof -
  have "gnc_gsettings_get_schema_ptr w schema = Some (Some h, w)"
    using assms(1,2) by (rule get_schema_ptr_hit)
  moreover have live: "G_IS_SETTINGS w (Some h)"
    using assms(3) by (simp add: G_IS_SETTINGS_def)
  moreover have "gnc_gsettings_is_valid_key w (Some h) (Some k) = Some True"
    using assms(4) by (auto simp: is_valid_key_eq [OF live])
  ultimately show ?thesis
    by (simp add: gnc_gsettings_reset_def)
qed

lemma g_settings_reset_decls [simp]:
  "schema_decls (g_settings_reset w p k) h = schema_decls w h"
  by (simp add: schema_decls_def split: option.splits)

lemma g_settings_reset_normalize [simp]:
  "gnc_gsettings_normalize_schema_name (g_settings_reset w p k) s =
     gnc_gsettings_normalize_schema_name w s"
  by (simp add: normalize_depends_on_prefix [of "g_settings_reset w p k" w])

lemma reset_loop_declared:
  assumes "gnc_gsettings_normalize_schema_name w schema = Some fn"
    and "schema_hash w fn = Some h"
    and "objects w h = Some sid"
    and "set ks \<subseteq> fst ` set (schema_decls w h)"
  shows "reset_loop w schema ks = Some (foldl (\<lambda>w k. g_settings_reset w (Some h) (Some k)) w ks)"
  using assms
proof (induction ks arbitrary: w)
  case Nil
  then show ?case by simp
next
  case (Cons k ks)
  let ?w = "g_settings_reset w (Some h) (Some k)"
  have step: "gnc_gsettings_reset w schema (Some k) = Some ?w"
    using Cons.prems by (intro reset_declared) auto
  have "reset_loop ?w schema ks = Some (foldl (\<lambda>w k. g_settings_reset w (Some h) (Some k)) ?w ks)"
    using Cons.prems by (intro Cons.IH) auto
  then show ?case
    using step by simp
qed

text \<open>The provider's resets of a list of keys, in closed form: the stored values of
  exactly these keys are dropped. The outcome depends on the set of the keys only.\<close>

lemma foldl_g_settings_reset:
  assumes "objects w h = Some sid"
  shows "foldl (\<lambda>w k. g_settings_reset w (Some h) (Some k)) w ks =
           w\<lparr>user_values := (user_values w)
                (sid := (\<lambda>k. if k \<in> set ks then None else user_values w sid k))\<rparr>"
  using assms
proof (induction ks arbitrary: w)
  case Nil
  then show ?case by simp
next
  case (Cons k ks)
  let ?w = "g_settings_reset w (Some h) (Some k)"
  have w: "?w = w\<lparr>user_values := (user_values w)(sid := (user_values w sid)(k := None))\<rparr>"
    using Cons.prems by (simp add: g_settings_reset_def)
  have "objects ?w h = Some sid"
    using Cons.prems by simp
  then have "foldl (\<lambda>w k. g_settings_reset w (Some h) (Some k)) ?w ks =
      ?w\<lparr>user_values := (user_values ?w)
            (sid := (\<lambda>k. if k \<in> set ks then None else user_values ?w sid k))\<rparr>"
    by (rule Cons.IH)
  also have "\<dots> = w\<lparr>user_values := (user_values w)
            (sid := (\<lambda>j. if j \<in> set (k # ks) then None else user_values w sid j))\<rparr>"
    unfolding w by (auto simp: fun_eq_iff)
  finally show ?case
    by (simp only: foldl_Cons)
qed

lemma run_calls_resets:
  "run_calls w (map (\<lambda>k. Reset schema (Some k)) ks) = reset_loop w schema ks"
  by (induction ks arbitrary: w) (auto split: option.splits)

lemma get_schema_ptr_success:
  assumes "gnc_gsettings_get_schema_ptr w schema = Some (schema_ptr, w1)"
    and "G_IS_SETTINGS w1 schema_ptr"
  shows "\<exists>fn h sid. gnc_gsettings_normalize_schema_name w1 schema = Some fn \<and>
           schema_ptr = Some h \<and> schema_hash w1 fn = Some h \<and> objects w1 h = Some sid \<and>
           qof_log w1 = qof_log w"
proof -
  obtain h where h: "schema_ptr = Some h"
    using assms(2) by (auto simp: G_IS_SETTINGS_def split: option.splits)
  obtain sid where sid: "objects w1 h = Some sid"
    using assms(2) h by (auto simp: G_IS_SETTINGS_def)
  obtain fn where fn: "gnc_gsettings_normalize_schema_name w schema = Some fn"
    and hit: "schema_hash w1 fn = Some h"
    using get_schema_ptr_cached assms(1) h by blast
  have "gsettings_prefix w1 = gsettings_prefix w"
    using get_schema_ptr_catalog_le [OF assms(1)] by (simp add: catalog_le_def)
  then have "gnc_gsettings_normalize_schema_name w1 schema = Some fn"
    using fn normalize_depends_on_prefix [of w1 w schema] by simp
  moreover have "qof_log w1 = qof_log w"
    using assms(1) h
    by (auto simp: gnc_gsettings_get_schema_ptr_def g_settings_new_def G_IS_SETTINGS_def
        split: option.splits if_splits)
  ultimately show ?thesis
    using h sid hit by blast
qed

lemma list_keys_live:
  assumes "objects w h = Some sid"
  shows "g_settings_list_keys w (Some h) = Some (Some (map fst (schema_decls w h)))"
  using assms by (simp add: g_settings_list_keys_def)

lemma reset_schema_eq:
  assumes "gnc_gsettings_get_schema_ptr w schema = Some (Some h, w1)"
    and "objects w1 h = Some sid"
  shows "gnc_gsettings_reset_schema w schema =
           reset_loop w1 schema (map fst (schema_decls w1 h))"
  using assms by (simp add: gnc_gsettings_reset_schema_def list_keys_live)

lemma reset_after_resolve:
  assumes "gnc_gsettings_get_schema_ptr w schema = Some (schema_ptr, w1)"
    and "G_IS_SETTINGS w1 schema_ptr"
  shows "gnc_gsettings_reset w schema key = gnc_gsettings_reset w1 schema key"
proof -
  obtain h where h: "schema_ptr = Some h"
    using assms(2) by (auto simp: G_IS_SETTINGS_def split: option.splits)
  have "gnc_gsettings_get_schema_ptr w1 schema = Some (Some h, w1)"
    using assms(1) h by (blast intro: get_schema_ptr_stable catalog_le_refl)
  then show ?thesis
    using assms(1) h by (simp add: gnc_gsettings_reset_def)
qed

lemma reset_loop_after_resolve:
  assumes "gnc_gsettings_get_schema_ptr w schema = Some (schema_ptr, w1)"
    and "G_IS_SETTINGS w1 schema_ptr"
    and "ks \<noteq> []"
  shows "reset_loop w schema ks = reset_loop w1 schema ks"
proof -
  obtain k rest where ks: "ks = k # rest"
    using assms(3) by (cases ks) auto
  show ?thesis
    unfolding ks using reset_after_resolve [OF assms(1,2), of "Some k"] by simp
qed

lemma resolved_resets:
  assumes "gnc_gsettings_get_schema_ptr w schema = Some (schema_ptr, w1)"
    and "G_IS_SETTINGS w1 schema_ptr"
    and "g_settings_list_keys w1 schema_ptr = Some (Some keys)"
    and "set ks \<subseteq> set keys"
  shows "\<exists>h sid. schema_ptr = Some h \<and> objects w1 h = Some sid \<and>
           keys = map fst (schema_decls w1 h) \<and> qof_log w1 = qof_log w \<and>
           reset_loop w1 schema ks =
             Some (w1\<lparr>user_values := (user_values w1)
                    (sid := (\<lambda>k. if k \<in> set ks then None else user_values w1 sid k))\<rparr>)"
proof -
  obtain fn h sid where fn: "gnc_gsettings_normalize_schema_name w1 schema = Some fn"
    and h: "schema_ptr = Some h" and hit: "schema_hash w1 fn = Some h"
    and sid: "objects w1 h = Some sid" and log: "qof_log w1 = qof_log w"
    using get_schema_ptr_success [OF assms(1,2)] by blast
  have keys: "keys = map fst (schema_decls w1 h)"
    using assms(3) h by (simp add: list_keys_live [OF sid])
  then have "set ks \<subseteq> fst ` set (schema_decls w1 h)"
    using assms(4) by simp
  then have "reset_loop w1 schema ks =
      Some (foldl (\<lambda>w k. g_settings_reset w (Some h) (Some k)) w1 ks)"
    using fn hit sid by (intro reset_loop_declared)
  then show ?thesis
    using h sid keys log by (simp add: foldl_g_settings_reset [OF sid])
qed

text \<open>
  Claim C6. For a schema that resolves to a settings object with the declared keys
  \<open>keys\<close>, \<^verbatim>\<open>gnc_gsettings_reset_schema\<close> returns, and the world it leaves is the
  world left by the calls \<^verbatim>\<open>gnc_gsettings_reset (schema, k)\<close> for the keys of any
  list \<open>ks\<close> that holds exactly the declared keys, in whatever order: run from the
  resolved world in every case, and run from the world before the call as well when
  there is a key at all. With no declared key the function stops after the lookup:
  the world is the resolved one, whose store, log, handlers and bindings are those of
  before the call (only the catalog may have gained the schema).
\<close>

theorem reset_schema_is_reset_of_each_key:
  assumes "gnc_gsettings_get_schema_ptr w schema = Some (schema_ptr, w1)"
    and "G_IS_SETTINGS w1 schema_ptr"
    and "g_settings_list_keys w1 schema_ptr = Some (Some keys)"
    and "set ks = set keys"
  shows "(\<exists>w'. gnc_gsettings_reset_schema w schema = Some w') \<and>
         run_calls w1 (map (\<lambda>k. Reset schema (Some k)) ks) = gnc_gsettings_reset_schema w schema \<and>
         (ks \<noteq> [] \<longrightarrow>
            run_calls w (map (\<lambda>k. Reset schema (Some k)) ks) = gnc_gsettings_reset_schema w schema) \<and>
         (keys = [] \<longrightarrow>
            gnc_gsettings_reset_schema w schema = Some w1 \<and> user_values w1 = user_values w \<and>
            qof_log w1 = qof_log w \<and> handlers w1 = handlers w \<and> bindings w1 = bindings w)"
proof -
  obtain h sid where h: "schema_ptr = Some h" and sid: "objects w1 h = Some sid"
    and keys: "keys = map fst (schema_decls w1 h)" and log: "qof_log w1 = qof_log w"
    and a: "reset_loop w1 schema ks =
      Some (w1\<lparr>user_values := (user_values w1)
             (sid := (\<lambda>k. if k \<in> set ks then None else user_values w1 sid k))\<rparr>)"
    using resolved_resets [OF assms(1,2,3), of ks] assms(4) by auto
  have b: "reset_loop w1 schema keys =
      Some (w1\<lparr>user_values := (user_values w1)
             (sid := (\<lambda>k. if k \<in> set keys then None else user_values w1 sid k))\<rparr>)"
    using resolved_resets [OF assms(1,2,3), of keys] sid h by auto
  have all: "gnc_gsettings_reset_schema w schema = reset_loop w1 schema keys"
    using reset_schema_eq [OF assms(1) [unfolded h] sid] keys by simp
  have same: "reset_loop w1 schema ks = gnc_gsettings_reset_schema w schema"
    using a b all assms(4) by simp
  have from_w: "ks \<noteq> [] \<longrightarrow>
      run_calls w (map (\<lambda>k. Reset schema (Some k)) ks) = gnc_gsettings_reset_schema w schema"
    using same reset_loop_after_resolve [OF assms(1,2)] by (simp add: run_calls_resets)
  have empty: "keys = [] \<longrightarrow>
      gnc_gsettings_reset_schema w schema = Some w1 \<and> user_values w1 = user_values w \<and>
      qof_log w1 = qof_log w \<and> handlers w1 = handlers w \<and> bindings w1 = bindings w"
    using all log get_schema_ptr_frame [OF assms(1)] by simp
  show ?thesis
    using same all b from_w empty by (simp add: run_calls_resets)
qed

theorem reset_schema_is_reset_of_each_key_witness:
  "run_calls written_world
      (map (\<lambda>k. Reset (Some ''general'') (Some k)) [''locked'', ''window.width'', ''mode'']) =
     gnc_gsettings_reset_schema written_world (Some ''general'') \<and>
   (\<exists>w'. gnc_gsettings_reset_schema written_world (Some ''general'') = Some w')"
proof -
  let ?w1 = "written_world\<lparr>objects := [1 \<mapsto> ''org.ex.app.general''], next_object := 2,
               schema_hash := [''org.ex.app.general'' \<mapsto> 1]\<rparr>"
  have general: "gnc_gsettings_get_schema_ptr written_world (Some ''general'') = Some (Some 1, ?w1)"
    by (simp add: eval_defs example_world_def written_world_def)
  have live: "G_IS_SETTINGS ?w1 (Some 1)"
    by (simp add: G_IS_SETTINGS_def)
  have keys: "g_settings_list_keys ?w1 (Some 1) = Some (Some [''window.width'', ''mode'', ''locked''])"
    by (simp add: g_settings_list_keys_def schema_decls_def example_world_def written_world_def)
  have perm: "set [''locked'', ''window.width'', ''mode''] = set [''window.width'', ''mode'', ''locked'']"
    by auto
  show ?thesis
    using reset_schema_is_reset_of_each_key [OF general live keys perm] by simp
qed

text \<open>
  Claim C8. On a valid settings object every key that \<^verbatim>\<open>g_settings_list_keys\<close>
  returns passes \<^verbatim>\<open>gnc_gsettings_is_valid_key\<close>. So, when the object is the one the
  schema resolves to, \<^verbatim>\<open>gnc_gsettings_reset_schema\<close> returns a world that is the
  provider's reset of each key in turn and whose log is the log of before the call:
  no call of \<^verbatim>\<open>gnc_gsettings_reset\<close> in the loop took the branch that logs an
  invalid key.
\<close>

theorem enumerated_keys_are_valid:
  assumes "G_IS_SETTINGS w1 schema_ptr"
    and "g_settings_list_keys w1 schema_ptr = Some (Some keys)"
  shows "(\<forall>k \<in> set keys. gnc_gsettings_is_valid_key w1 schema_ptr (Some k) = Some True) \<and>
         (gnc_gsettings_get_schema_ptr w schema = Some (schema_ptr, w1) \<longrightarrow>
            gnc_gsettings_reset_schema w schema =
              Some (foldl (\<lambda>w k. g_settings_reset w schema_ptr (Some k)) w1 keys) \<and>
            map_option qof_log (gnc_gsettings_reset_schema w schema) = Some (qof_log w))"
proof (intro conjI ballI impI)
  obtain h where h: "schema_ptr = Some h"
    using assms(1) by (auto simp: G_IS_SETTINGS_def split: option.splits)
  obtain sid where sid: "objects w1 h = Some sid"
    using assms(1) h by (auto simp: G_IS_SETTINGS_def)
  have keys: "keys = map fst (schema_decls w1 h)"
    using assms(2) h by (simp add: list_keys_live [OF sid])
  {
    fix k
    assume "k \<in> set keys"
    then have "\<exists>h. schema_ptr = Some h \<and> Some k \<in> Some ` fst ` set (schema_decls w1 h)"
      using h keys by auto
    then show "gnc_gsettings_is_valid_key w1 schema_ptr (Some k) = Some True"
      using is_valid_key_eq [OF assms(1), of "Some k"] by simp
  }
  assume r: "gnc_gsettings_get_schema_ptr w schema = Some (schema_ptr, w1)"
  obtain fn where fn: "gnc_gsettings_normalize_schema_name w1 schema = Some fn"
    and hit: "schema_hash w1 fn = Some h" and log: "qof_log w1 = qof_log w"
    using get_schema_ptr_success [OF r assms(1)] h by auto
  have "reset_loop w1 schema keys =
      Some (foldl (\<lambda>w k. g_settings_reset w (Some h) (Some k)) w1 keys)"
    using fn hit sid keys by (intro reset_loop_declared) auto
  then show all: "gnc_gsettings_reset_schema w schema =
      Some (foldl (\<lambda>w k. g_settings_reset w schema_ptr (Some k)) w1 keys)"
    using reset_schema_eq [OF r [unfolded h] sid] keys h by simp
  show "map_option qof_log (gnc_gsettings_reset_schema w schema) = Some (qof_log w)"
    unfolding all h using log by (simp add: foldl_g_settings_reset [OF sid])
qed

theorem enumerated_keys_are_valid_witness:
  "gnc_gsettings_is_valid_key
      (written_world\<lparr>objects := [1 \<mapsto> ''org.ex.app.general''], next_object := 2,
                     schema_hash := [''org.ex.app.general'' \<mapsto> 1]\<rparr>)
      (Some 1) (Some ''mode'') = Some True \<and>
   map_option qof_log (gnc_gsettings_reset_schema written_world (Some ''general'')) = Some []"
proof -
  let ?w1 = "written_world\<lparr>objects := [1 \<mapsto> ''org.ex.app.general''], next_object := 2,
               schema_hash := [''org.ex.app.general'' \<mapsto> 1]\<rparr>"
  have general: "gnc_gsettings_get_schema_ptr written_world (Some ''general'') = Some (Some 1, ?w1)"
    by (simp add: eval_defs example_world_def written_world_def)
  have live: "G_IS_SETTINGS ?w1 (Some 1)"
    by (simp add: G_IS_SETTINGS_def)
  have keys: "g_settings_list_keys ?w1 (Some 1) = Some (Some [''window.width'', ''mode'', ''locked''])"
    by (simp add: g_settings_list_keys_def schema_decls_def example_world_def written_world_def)
  have "qof_log written_world = []"
    by (simp add: written_world_def example_world_def)
  then show ?thesis
    using enumerated_keys_are_valid [OF live keys, of written_world "Some ''general''"] general
    by simp
qed

subsection \<open>Change notification\<close>

text \<open>The mask that \<^verbatim>\<open>gnc_gsettings_remove_cb_by_func\<close> passes is the value of a
  logical disjunction, 1, which is the flag \<^verbatim>\<open>G_SIGNAL_MATCH_ID\<close> and holds none of
  the flags the library needs to look for handlers.\<close>

lemma remove_cb_mask:
  "c_lor (c_lor G_SIGNAL_MATCH_DETAIL G_SIGNAL_MATCH_FUNC) G_SIGNAL_MATCH_DATA = G_SIGNAL_MATCH_ID"
  "G_SIGNAL_MATCH_ID AND (G_SIGNAL_MATCH_CLOSURE OR G_SIGNAL_MATCH_FUNC OR G_SIGNAL_MATCH_DATA) = 0"
  by (simp_all add: c_lor_def G_SIGNAL_MATCH_ID_def G_SIGNAL_MATCH_DETAIL_def
      G_SIGNAL_MATCH_CLOSURE_def G_SIGNAL_MATCH_FUNC_def G_SIGNAL_MATCH_DATA_def)

lemma disconnect_matched_by_id_only:
  "g_signal_handlers_disconnect_matched w p G_SIGNAL_MATCH_ID i d c f u = (0, w)"
  by (simp add: g_signal_handlers_disconnect_matched_def remove_cb_mask split: option.splits)

text \<open>So the function disconnects nothing, whatever its arguments.\<close>

lemma remove_cb_by_func_keeps_handlers:
  assumes "gnc_gsettings_remove_cb_by_func w schema key func user_data = Some w'"
  shows "handlers w' = handlers w"
proof -
  obtain p w1 where r: "gnc_gsettings_get_schema_ptr w schema = Some (p, w1)"
    using assms by (auto simp: gnc_gsettings_remove_cb_by_func_def split: option.splits)
  have "handlers w' = handlers w1"
    using assms
    by (auto simp: gnc_gsettings_remove_cb_by_func_def r remove_cb_mask
        disconnect_matched_by_id_only split: option.splits if_splits)
  then show ?thesis
    using get_schema_ptr_frame(3) [OF r] by simp
qed

text \<open>
  Claim C1, at an input where the code and the claim part. In the example world a
  callback (function 7, user data 9) is registered on the schema \<^verbatim>\<open>general\<close> for
  every key; the registration is the one handler of the schema object. The call of
  \<^verbatim>\<open>gnc_gsettings_remove_cb_by_func\<close> with the same schema, key, function and user
  data returns and the handler is still connected.
\<close>

theorem remove_cb_by_func_leaves_matching_handler:
  "\<exists>w1 w2.
     gnc_gsettings_register_cb example_world (Some ''general'') None (Some 7) (Some 9) =
       Some (1, w1) \<and>
     handlers w1 =
       [\<lparr>h_instance = 1, h_id = 1, h_signal_id = 1, h_detail = None, h_func = 7,
         h_data = Some 9\<rparr>] \<and>
     gnc_gsettings_remove_cb_by_func w1 (Some ''general'') None (Some 7) (Some 9) = Some w2 \<and>
     handlers w2 = handlers w1"
proof -
  let ?w1 = "example_world\<lparr>objects := [1 \<mapsto> ''org.ex.app.general''], next_object := 2,
               schema_hash := [''org.ex.app.general'' \<mapsto> 1]\<rparr>"
  let ?h = "\<lparr>h_instance = 1, h_id = 1, h_signal_id = 1, h_detail = None, h_func = 7,
             h_data = Some 9\<rparr>"
  let ?w2 = "?w1\<lparr>handlers := [?h], next_handler := 1\<rparr>"
  have general: "gnc_gsettings_get_schema_ptr example_world (Some ''general'') = Some (Some 1, ?w1)"
    by (simp add: eval_defs example_world_def)
  have reg: "gnc_gsettings_register_cb example_world (Some ''general'') None (Some 7) (Some 9) =
      Some (1, ?w2)"
    by (simp add: gnc_gsettings_register_cb_def general G_IS_SETTINGS_def g_signal_connect_def
        signal_parse_name_def changed_signal_id_def)
      (simp add: example_world_def)
  have again: "gnc_gsettings_get_schema_ptr ?w2 (Some ''general'') = Some (Some 1, ?w2)"
    by (simp add: eval_defs example_world_def)
  have "gnc_gsettings_remove_cb_by_func ?w2 (Some ''general'') None (Some 7) (Some 9) = Some ?w2"
    unfolding gnc_gsettings_remove_cb_by_func_def again
    by (simp add: G_IS_SETTINGS_def remove_cb_mask disconnect_matched_by_id_only)
  then show ?thesis
    using reg by (intro exI [of _ ?w2]) (simp add: example_world_def)
qed

text \<open>With the flags joined bitwise the call would still miss the handler: the detail
  it passes is the quark of the whole signal string, and the detail of a handler
  connected to \<^verbatim>\<open>changed\<close> is 0.\<close>

lemma remove_cb_detail_is_signal_string:
  "\<not> handler_matches (G_SIGNAL_MATCH_DETAIL OR G_SIGNAL_MATCH_FUNC OR G_SIGNAL_MATCH_DATA) 0
       (g_quark_from_string (Some ''changed'')) None (Some 7) (Some 9)
       \<lparr>h_instance = 1, h_id = 1, h_signal_id = 1, h_detail = None, h_func = 7, h_data = Some 9\<rparr>"
  by (simp add: handler_matches_def g_quark_from_string_def G_SIGNAL_MATCH_DETAIL_def
      G_SIGNAL_MATCH_FUNC_def G_SIGNAL_MATCH_DATA_def)

subsection \<open>The entity loader of the migration\<close>

lemma lastsegment_loop_no_slash:
  "CHR ''/'' \<notin> set s \<Longrightarrow> lastsegment_loop s l = l"
  by (induction s arbitrary: l) auto

lemma lastsegment_loop_after_slash:
  "lastsegment_loop (d @ CHR ''/'' # s) l = lastsegment_loop s s"
  by (induction d arbitrary: l) auto

text \<open>The scan returns what follows the last slash, the whole URL when there is
  none.\<close>

lemma lastsegment_is_last_segment:
  assumes "d = [] \<or> last d = CHR ''/''" and "CHR ''/'' \<notin> set seg"
  shows "lastsegment_loop (d @ seg) (d @ seg) = seg"
proof (cases "d = []")
  case True
  then show ?thesis
    using assms(2) by (simp add: lastsegment_loop_no_slash)
next
  case False
  then obtain d' where d': "d = d' @ [CHR ''/'']"
    using assms(1) by (metis append_butlast_last_id)
  show ?thesis
    unfolding d' using assms(2)
    by (simp add: lastsegment_loop_after_slash lastsegment_loop_no_slash)
qed

text \<open>
  Claim C10. Take two URLs with the same last segment \<open>seg\<close>: \<open>da @ seg\<close> and
  \<open>db @ seg\<close>, where \<open>seg\<close> holds no slash and each of \<open>da\<close>, \<open>db\<close> is empty or ends
  in a slash. When the default loader yields no input for either, the loader builds the
  same fallback path for both, the scratch directory, a slash and \<open>seg\<close>, and returns
  for both what the default loader finds at that path.
\<close>

theorem loader_depends_on_last_segment:
  assumes "da = [] \<or> last da = CHR ''/''"
    and "db = [] \<or> last db = CHR ''/''"
    and "CHR ''/'' \<notin> set seg"
    and "loader (da @ seg) ID (set_warning None ctxt) = None"
    and "loader (db @ seg) ID (set_warning None ctxt) = None"
  shows "fallback_url env (da @ seg) =
           g_build_filename env [g_getenv_HOME env, Some ''.gnc-migration-tmp'', None] @ ''/'' @ seg \<and>
         fallback_url env (db @ seg) = fallback_url env (da @ seg) \<and>
         map_option lr_ret (xsltprocExternalEntityLoader (Some loader) env (Some (da @ seg)) ID ctxt) =
           Some (loader (fallback_url env (da @ seg)) ID (set_warning None ctxt)) \<and>
         map_option lr_ret (xsltprocExternalEntityLoader (Some loader) env (Some (db @ seg)) ID ctxt) =
           map_option lr_ret (xsltprocExternalEntityLoader (Some loader) env (Some (da @ seg)) ID ctxt)"
proof -
  have f1: "fallback_url env (da @ seg) =
      g_build_filename env [g_getenv_HOME env, Some ''.gnc-migration-tmp'', None] @ ''/'' @ seg"
    using lastsegment_is_last_segment [OF assms(1,3)] by (simp add: fallback_url_def)
  have f2: "fallback_url env (db @ seg) =
      g_build_filename env [g_getenv_HOME env, Some ''.gnc-migration-tmp'', None] @ ''/'' @ seg"
    using lastsegment_is_last_segment [OF assms(2,3)] by (simp add: fallback_url_def)
  have r1: "map_option lr_ret
        (xsltprocExternalEntityLoader (Some loader) env (Some (da @ seg)) ID ctxt) =
      Some (loader (fallback_url env (da @ seg)) ID (set_warning None ctxt))"
    using assms(4) by (simp add: xsltprocExternalEntityLoader_def Let_def split: option.splits)
  have r2: "map_option lr_ret
        (xsltprocExternalEntityLoader (Some loader) env (Some (db @ seg)) ID ctxt) =
      Some (loader (fallback_url env (db @ seg)) ID (set_warning None ctxt))"
    using assms(5) by (simp add: xsltprocExternalEntityLoader_def Let_def split: option.splits)
  show ?thesis
    unfolding r1 r2 unfolding f1 f2 by simp
qed

theorem loader_depends_on_last_segment_witness:
  "fallback_url missing_stylesheet_env ''file:///etc/gconf/gconf-general.xml'' =
     ''/home/u/.gnc-migration-tmp/gconf-general.xml'' \<and>
   fallback_url missing_stylesheet_env ''gconf-general.xml'' =
     ''/home/u/.gnc-migration-tmp/gconf-general.xml'' \<and>
   map_option lr_ret
     (xsltprocExternalEntityLoader (Some scratch_loader) missing_stylesheet_env
        (Some ''file:///etc/gconf/gconf-general.xml'') None None) = Some (Some 5) \<and>
   map_option lr_ret
     (xsltprocExternalEntityLoader (Some scratch_loader) missing_stylesheet_env
        (Some ''gconf-general.xml'') None None) = Some (Some 5)"
proof -
  have a: "''file:///etc/gconf/'' = [] \<or> last ''file:///etc/gconf/'' = CHR ''/''"
    by simp
  have b: "([]::string) = [] \<or> last ([]::string) = CHR ''/''"
    by simp
  have c: "CHR ''/'' \<notin> set ''gconf-general.xml''"
    by simp
  have d: "scratch_loader (''file:///etc/gconf/'' @ ''gconf-general.xml'') None (set_warning None None) = None"
    by (simp add: scratch_loader_def)
  have e: "scratch_loader ([] @ ''gconf-general.xml'') None (set_warning None None) = None"
    by (simp add: scratch_loader_def)
  have tmp: "g_build_filename missing_stylesheet_env
      [g_getenv_HOME missing_stylesheet_env, Some ''.gnc-migration-tmp'', None] =
      ''/home/u/.gnc-migration-tmp''"
    by (simp add: missing_stylesheet_env_def)
  note T = loader_depends_on_last_segment [where da = "''file:///etc/gconf/''" and db = "[]"
      and seg = "''gconf-general.xml''" and loader = scratch_loader and ID = None
      and ctxt = None and env = missing_stylesheet_env, OF a b c d e]
  have f: "fallback_url missing_stylesheet_env ''file:///etc/gconf/gconf-general.xml'' =
      ''/home/u/.gnc-migration-tmp/gconf-general.xml''"
    using T [THEN conjunct1] tmp by simp
  have g: "fallback_url missing_stylesheet_env ''gconf-general.xml'' =
      ''/home/u/.gnc-migration-tmp/gconf-general.xml''"
    using T [THEN conjunct2, THEN conjunct1] f by simp
  have r: "map_option lr_ret
     (xsltprocExternalEntityLoader (Some scratch_loader) missing_stylesheet_env
        (Some ''file:///etc/gconf/gconf-general.xml'') None None) = Some (Some 5)"
    using T [THEN conjunct2, THEN conjunct2, THEN conjunct1] f by (simp add: scratch_loader_def)
  have q: "map_option lr_ret
     (xsltprocExternalEntityLoader (Some scratch_loader) missing_stylesheet_env
        (Some ''gconf-general.xml'') None None) = Some (Some 5)"
    using T [THEN conjunct2, THEN conjunct2, THEN conjunct2] r by simp
  show ?thesis
    using f g r q by blast
qed

subsection \<open>The migration driver\<close>

text \<open>The driver has no early return of its own: a run that returns has opened the
  output file and has made every call, the load of the generated script and the
  evaluation of \<^verbatim>\<open>run-migration\<close> among them, and each call into Guile has
  returned. What a missing manifest or stylesheet leads to (a report, a write to the
  store, a return) is therefore decided inside the parsers and the interpreter.\<close>

lemma migrate_returns_after_every_call:
  assumes "snd (gnc_gsettings_migrate_from_gconf guile_returns env) = Returned"
  shows "guile_returns (Scm_c_eval_string ''(use-modules (migrate-prefs-user))(run-migration)'') \<and>
         Scm_c_eval_string ''(use-modules (migrate-prefs-user))(run-migration)''
           \<in> set (fst (gnc_gsettings_migrate_from_gconf guile_returns env)) \<and>
         length (fst (gnc_gsettings_migrate_from_gconf guile_returns env)) = 19"
  using assms
  by (simp add: gnc_gsettings_migrate_from_gconf_def Let_def split: if_splits)

end
